theory Spec2Isabelle
  imports Complex_Main "HOL-Library.Log_Nat"
begin

section \<open>Numbers and arithmetic of the program\<close>

text \<open>
  The program computes with floats of two run-time types: Python's \<open>float\<close> and numpy's
  \<open>float64\<close> (what \<open>np.sign\<close> returns). Both are IEEE binary64 values, but they differ
  where an operation has no finite result: a Python float division by zero raises
  \<open>ZeroDivisionError\<close> and a Python float power that overflows raises \<open>OverflowError\<close>,
  while numpy gives an infinity or a NaN (with a warning) and goes on. A value of the
  model is a real number tagged with its run-time type; an operation with a numpy operand
  is numpy's and has a numpy result.
\<close>

datatype number = PyFloat real | Float64 real

fun val :: "number \<Rightarrow> real" where
  "val (PyFloat x) = x"
| "val (Float64 x) = x"

fun numpy :: "number \<Rightarrow> bool" where
  "numpy (PyFloat x) = False"
| "numpy (Float64 x) = True"

definition number_of :: "bool \<Rightarrow> real \<Rightarrow> number" where
  "number_of np x = (if np then Float64 x else PyFloat x)"

text \<open>
  A run stops being a run of finite numbers in two ways. \<open>Raised e\<close>: the exception \<open>e\<close> is
  raised, and \<open>simulate_particle\<close> returns nothing. \<open>NonFinite\<close>: an infinity or a NaN has
  been produced; Python computes on with it, and what follows (non-finite entries in the
  trajectory, a later exception) is outside the model, which only records that it happened.
\<close>

datatype exception = ZeroDivisionError | OverflowError

datatype stop = Raised exception | NonFinite

definition and_then :: "stop + 'a \<Rightarrow> ('a \<Rightarrow> stop + 'b) \<Rightarrow> stop + 'b" where
  "and_then m f = (case m of Inl e \<Rightarrow> Inl e | Inr x \<Rightarrow> f x)"

text \<open>
  The machine arithmetic is a parameter of every function of the model. \<open>rnd\<close> rounds the
  exact result of \<open>+\<close>, \<open>-\<close>, \<open>*\<close> and \<open>/\<close> to a machine number (\<open>None\<close>: the result
  overflows); \<open>py_pow\<close> and \<open>np_pow\<close> are the power functions behind \<open>**\<close> on a Python float
  and on a numpy scalar (\<open>None\<close>: overflow). Two arithmetics are used: \<open>exact\<close>, the
  arithmetic of the reals, in which the equations of a numerical scheme are written, and
  \<open>binary64\<close>, the arithmetic the program runs on.
\<close>

record arith =
  rnd :: "real \<Rightarrow> real option"
  py_pow :: "real \<Rightarrow> nat \<Rightarrow> real option"
  np_pow :: "real \<Rightarrow> nat \<Rightarrow> real option"

definition exact :: arith where
  "exact = \<lparr>rnd = Some, py_pow = (\<lambda>x n. Some (x ^ n)), np_pow = (\<lambda>x n. Some (x ^ n))\<rparr>"

definition round_even :: "real \<Rightarrow> int" where
  "round_even q =
     (let n = \<lfloor>q\<rfloor>; r = q - of_int n
      in if r < 1 / 2 then n
         else if 1 / 2 < r then n + 1
         else if even n then n else n + 1)"

text \<open>\<open>exponent2 x\<close> is the integer \<open>e\<close> with \<open>2 ^ e \<le> x < 2 ^ (e + 1)\<close>, for \<open>0 < x\<close>.\<close>

definition exponent2 :: "real \<Rightarrow> int" where
  "exponent2 x =
     (if 1 \<le> x then bitlen \<lfloor>x\<rfloor> - 1
      else - bitlen (\<lceil>1 / x\<rceil> - 1))"

text \<open>
  IEEE binary64, round to nearest, ties to even: 53 significant bits, least exponent
  \<open>-1022\<close> (below it the spacing stays \<open>2 ^ -1074\<close>: subnormal numbers, underflow to 0),
  and overflow when the rounded magnitude reaches \<open>2 ^ 1024\<close>.
\<close>

definition binary64_round :: "real \<Rightarrow> real option" where
  "binary64_round x =
     (if x = 0 then Some 0
      else let u = 2 powi (max (exponent2 \<bar>x\<bar>) (- 1022) - 52);
               r = of_int (round_even (\<bar>x\<bar> / u)) * u
           in if 2 ^ 1024 \<le> r then None else Some (sgn x * r))"

text \<open>
  \<open>**\<close> calls the C library's \<open>pow\<close>, which is not correctly rounded: where the exact power
  is not a binary64 number, the library decides the result, and it is the parameter
  \<open>libm\<close>. What every library with an error below one unit in the last place does is
  fixed: an exact power that is a binary64 number is returned as it is, and a power of
  magnitude \<open>2 ^ 1024\<close> or more overflows.
\<close>

definition binary64_pow :: "(real \<Rightarrow> nat \<Rightarrow> real option) \<Rightarrow> real \<Rightarrow> nat \<Rightarrow> real option" where
  "binary64_pow libm x n =
     (if binary64_round (x ^ n) = Some (x ^ n) then Some (x ^ n)
      else if 2 ^ 1024 \<le> \<bar>x ^ n\<bar> then None
      else libm x n)"

definition binary64 ::
  "(real \<Rightarrow> nat \<Rightarrow> real option) \<Rightarrow> (real \<Rightarrow> nat \<Rightarrow> real option) \<Rightarrow> arith" where
  "binary64 libm nplib =
     \<lparr>rnd = binary64_round, py_pow = binary64_pow libm, np_pow = binary64_pow nplib\<rparr>"

text \<open>The result of \<open>+\<close>, \<open>-\<close>, \<open>*\<close> or \<open>/\<close> whose exact value is \<open>x\<close>; on overflow it is an
  infinity, for both run-time types.\<close>

definition rounded :: "arith \<Rightarrow> bool \<Rightarrow> real \<Rightarrow> stop + number" where
  "rounded ar np x =
     (case rnd ar x of None \<Rightarrow> Inl NonFinite | Some r \<Rightarrow> Inr (number_of np r))"

definition fadd :: "arith \<Rightarrow> number \<Rightarrow> number \<Rightarrow> stop + number" where
  "fadd ar a b = rounded ar (numpy a \<or> numpy b) (val a + val b)"

definition fsub :: "arith \<Rightarrow> number \<Rightarrow> number \<Rightarrow> stop + number" where
  "fsub ar a b = rounded ar (numpy a \<or> numpy b) (val a - val b)"

definition fmul :: "arith \<Rightarrow> number \<Rightarrow> number \<Rightarrow> stop + number" where
  "fmul ar a b = rounded ar (numpy a \<or> numpy b) (val a * val b)"

definition fdiv :: "arith \<Rightarrow> number \<Rightarrow> number \<Rightarrow> stop + number" where
  "fdiv ar a b =
     (if val b = 0 then
        (if numpy a \<or> numpy b then Inl NonFinite else Inl (Raised ZeroDivisionError))
      else rounded ar (numpy a \<or> numpy b) (val a / val b))"

definition fpow :: "arith \<Rightarrow> number \<Rightarrow> nat \<Rightarrow> stop + number" where
  "fpow ar a n =
     (if numpy a then
        (case np_pow ar (val a) n of None \<Rightarrow> Inl NonFinite | Some r \<Rightarrow> Inr (Float64 r))
      else
        (case py_pow ar (val a) n of
           None \<Rightarrow> Inl (Raised OverflowError)
         | Some r \<Rightarrow> Inr (PyFloat r)))"

text \<open>Unary minus and \<open>abs\<close> are exact and keep the type; \<open>np.sign\<close> returns a numpy scalar.\<close>

fun fneg :: "number \<Rightarrow> number" where
  "fneg (PyFloat x) = PyFloat (- x)"
| "fneg (Float64 x) = Float64 (- x)"

fun fabs :: "number \<Rightarrow> number" where
  "fabs (PyFloat x) = PyFloat \<bar>x\<bar>"
| "fabs (Float64 x) = Float64 \<bar>x\<bar>"

definition np_sign :: "number \<Rightarrow> number" where
  "np_sign x = Float64 (sgn (val x))"

section \<open>particle.py\<close>

record Particle1D =
  position :: number
  velocity :: number
  mass :: number
  acceleration :: number

text \<open>
  \<open>Particle1D.__init__\<close>. The two draws of the random generator are the arguments
  \<open>rand_pos\<close> (from \<open>np.random.random()\<close>) and \<open>rand_vel\<close> (from
  \<open>np.random.uniform(-1, 1)\<close>), both Python floats; an argument left out by the caller is
  \<open>None\<close>. There is no check of any argument.
\<close>

definition Particle1D_init ::
  "real \<Rightarrow> real \<Rightarrow> number option \<Rightarrow> number option \<Rightarrow> number \<Rightarrow> Particle1D" where
  "Particle1D_init rand_pos rand_vel pos vel m =
     \<lparr>position = (case pos of None \<Rightarrow> PyFloat rand_pos | Some x \<Rightarrow> x),
      velocity = (case vel of None \<Rightarrow> PyFloat rand_vel | Some v \<Rightarrow> v),
      mass = m,
      acceleration = PyFloat 0\<rparr>"

text \<open>\<open>apply_force\<close>: \<open>self.acceleration = force / self.mass\<close>.\<close>

definition apply_force :: "arith \<Rightarrow> Particle1D \<Rightarrow> number \<Rightarrow> stop + Particle1D" where
  "apply_force ar p f =
     and_then (fdiv ar f (mass p)) (\<lambda>a. Inr (p\<lparr>acceleration := a\<rparr>))"

text \<open>\<open>update_position\<close>: \<open>self.position += self.velocity * dt\<close>.\<close>

definition update_position :: "arith \<Rightarrow> Particle1D \<Rightarrow> number \<Rightarrow> stop + Particle1D" where
  "update_position ar p dt =
     and_then (fmul ar (velocity p) dt) (\<lambda>d.
     and_then (fadd ar (position p) d) (\<lambda>x. Inr (p\<lparr>position := x\<rparr>)))"

text \<open>\<open>update_velocity\<close>: \<open>self.velocity += self.acceleration * dt\<close>.\<close>

definition update_velocity :: "arith \<Rightarrow> Particle1D \<Rightarrow> number \<Rightarrow> stop + Particle1D" where
  "update_velocity ar p dt =
     and_then (fmul ar (acceleration p) dt) (\<lambda>d.
     and_then (fadd ar (velocity p) d) (\<lambda>v. Inr (p\<lparr>velocity := v\<rparr>)))"

section \<open>potentials.py\<close>

text \<open>
  The four concrete subclasses of \<open>Potential\<close>, with their attributes (Python floats) in
  the order of \<open>__init__\<close>: \<open>HarmonicPotential k center\<close>, \<open>QuarticPotential a center\<close>,
  \<open>BoxPotential width center wall_stiffness half_width\<close>. The base class, whose two
  methods only raise \<open>NotImplementedError\<close>, is abstract and is not a value of the type.
\<close>

datatype Potential =
    NoPotential
  | HarmonicPotential real real
  | QuarticPotential real real
  | BoxPotential real real real real

text \<open>\<open>BoxPotential.__init__\<close> stores \<open>half_width = width / 2.0\<close>; nothing is checked.\<close>

definition BoxPotential_init :: "arith \<Rightarrow> real \<Rightarrow> real \<Rightarrow> real \<Rightarrow> stop + Potential" where
  "BoxPotential_init ar width center wall_stiffness =
     and_then (fdiv ar (PyFloat width) (PyFloat 2)) (\<lambda>h.
     Inr (BoxPotential width center wall_stiffness (val h)))"

text \<open>\<open>__call__\<close>: the potential energy at \<open>x\<close>. In a product the left factor is evaluated
  before the right one.\<close>

fun potential_call :: "arith \<Rightarrow> Potential \<Rightarrow> number \<Rightarrow> stop + number" where
  "potential_call ar NoPotential x = Inr (PyFloat 0)"
| "potential_call ar (HarmonicPotential k center) x =
     and_then (fsub ar x (PyFloat center)) (\<lambda>dx.
     and_then (fmul ar (PyFloat (1 / 2)) (PyFloat k)) (\<lambda>c.
     and_then (fpow ar dx 2) (\<lambda>q. fmul ar c q)))"
| "potential_call ar (QuarticPotential a center) x =
     and_then (fsub ar x (PyFloat center)) (\<lambda>dx.
     and_then (fpow ar dx 4) (\<lambda>q. fmul ar (PyFloat a) q))"
| "potential_call ar (BoxPotential width center wall_stiffness half_width) x =
     and_then (fsub ar x (PyFloat center)) (\<lambda>d.
     let dx = fabs d
     in if val dx \<le> half_width then Inr (PyFloat 0)
        else and_then (fsub ar dx (PyFloat half_width)) (\<lambda>overshoot.
             and_then (fmul ar (PyFloat (1 / 2)) (PyFloat wall_stiffness)) (\<lambda>c.
             and_then (fpow ar overshoot 2) (\<lambda>q. fmul ar c q))))"

text \<open>\<open>force\<close>.\<close>

fun force :: "arith \<Rightarrow> Potential \<Rightarrow> number \<Rightarrow> stop + number" where
  "force ar NoPotential x = Inr (PyFloat 0)"
| "force ar (HarmonicPotential k center) x =
     and_then (fsub ar x (PyFloat center)) (\<lambda>dx. fmul ar (PyFloat (- k)) dx)"
| "force ar (QuarticPotential a center) x =
     and_then (fsub ar x (PyFloat center)) (\<lambda>dx.
     and_then (fmul ar (PyFloat (- 4)) (PyFloat a)) (\<lambda>c.
     and_then (fpow ar dx 3) (\<lambda>q. fmul ar c q)))"
| "force ar (BoxPotential width center wall_stiffness half_width) x =
     and_then (fsub ar x (PyFloat center)) (\<lambda>dx.
     if val (fabs dx) \<le> half_width then Inr (PyFloat 0)
     else let sign = np_sign dx
          in and_then (fsub ar (fabs dx) (PyFloat half_width)) (\<lambda>overshoot.
             and_then (fmul ar (fneg sign) (PyFloat wall_stiffness)) (\<lambda>c.
             fmul ar c overshoot)))"

section \<open>particle\_sim.py\<close>

text \<open>The local variables of \<open>simulate_particle\<close>; \<open>particle\<close> is the caller's object, and
  the lists hold the numbers as they were appended.\<close>

record locals =
  particle :: Particle1D
  time :: number
  times_list :: "number list"
  positions :: "number list"
  velocities :: "number list"
  ke :: "number list"
  pe :: "number list"
  total_e :: "number list"

text \<open>The dictionary \<open>energies\<close> has exactly the three keys below; its values, like the
  other returned sequences, are numpy arrays (\<open>np.array\<close> of a list).\<close>

record energies =
  kinetic :: "real list"
  potential :: "real list"
  total :: "real list"

definition np_array :: "number list \<Rightarrow> real list" where
  "np_array xs = map val xs"

text \<open>\<open>0.5 * particle.mass * particle.velocity**2\<close>.\<close>

definition kinetic_energy :: "arith \<Rightarrow> Particle1D \<Rightarrow> stop + number" where
  "kinetic_energy ar p =
     and_then (fmul ar (PyFloat (1 / 2)) (mass p)) (\<lambda>c.
     and_then (fpow ar (velocity p) 2) (\<lambda>q. fmul ar c q))"

text \<open>The statements before the loop.\<close>

definition initial_locals :: "arith \<Rightarrow> Particle1D \<Rightarrow> Potential \<Rightarrow> stop + locals" where
  "initial_locals ar p pot =
     and_then (kinetic_energy ar p) (\<lambda>ke0.
     and_then (potential_call ar pot (position p)) (\<lambda>pe0.
     and_then (fadd ar ke0 pe0) (\<lambda>e0.
     Inr \<lparr>particle = p, time = PyFloat 0, times_list = [PyFloat 0],
          positions = [position p], velocities = [velocity p],
          ke = [ke0], pe = [pe0], total_e = [e0]\<rparr>)))"

text \<open>The two half-kicks and the drift of one iteration, on the particle.\<close>

definition verlet :: "arith \<Rightarrow> Potential \<Rightarrow> real \<Rightarrow> Particle1D \<Rightarrow> stop + Particle1D" where
  "verlet ar pot dt p =
     and_then (force ar pot (position p)) (\<lambda>f.
     and_then (apply_force ar p f) (\<lambda>p1.
     and_then (fdiv ar (PyFloat dt) (PyFloat 2)) (\<lambda>h.
     and_then (update_velocity ar p1 h) (\<lambda>p2.
     and_then (update_position ar p2 (PyFloat dt)) (\<lambda>p3.
     and_then (force ar pot (position p3)) (\<lambda>f'.
     and_then (apply_force ar p3 f') (\<lambda>p4.
     and_then (fdiv ar (PyFloat dt) (PyFloat 2)) (\<lambda>h'.
     update_velocity ar p4 h'))))))))"

text \<open>One iteration of the loop body: the particle is advanced, then the sample is recorded.\<close>

definition loop_body :: "arith \<Rightarrow> Potential \<Rightarrow> real \<Rightarrow> locals \<Rightarrow> stop + locals" where
  "loop_body ar pot dt s =
     and_then (verlet ar pot dt (particle s)) (\<lambda>p.
     and_then (fadd ar (time s) (PyFloat dt)) (\<lambda>t.
     and_then (kinetic_energy ar p) (\<lambda>ke1.
     and_then (potential_call ar pot (position p)) (\<lambda>pe1.
     and_then (fadd ar ke1 pe1) (\<lambda>e1.
     Inr \<lparr>particle = p, time = t, times_list = times_list s @ [t],
          positions = positions s @ [position p],
          velocities = velocities s @ [velocity p],
          ke = ke s @ [ke1], pe = pe s @ [pe1], total_e = total_e s @ [e1]\<rparr>)))))"

text \<open>\<open>while time < duration\<close>. A loop that does not end has the value \<open>None\<close>.\<close>

partial_function (option) while_loop ::
  "arith \<Rightarrow> Potential \<Rightarrow> real \<Rightarrow> real \<Rightarrow> locals \<Rightarrow> (stop + locals) option" where
  "while_loop ar pot duration dt s =
     (if val (time s) < duration then
        (case loop_body ar pot dt s of
           Inl e \<Rightarrow> Some (Inl e)
         | Inr s' \<Rightarrow> while_loop ar pot duration dt s')
      else Some (Inr s))"

declare while_loop.simps [code]

text \<open>
  \<open>simulate_particle\<close> returns the tuple \<open>(times, positions, velocities, energies)\<close> of numpy
  arrays. The particle is mutated in place, so the model returns its final state beside
  the tuple. The arguments \<open>duration\<close> and \<open>dt\<close> are Python floats.
\<close>

type_synonym trajectory = "real list \<times> real list \<times> real list \<times> energies"

definition returned :: "locals \<Rightarrow> Particle1D \<times> trajectory" where
  "returned s =
     (particle s,
      (np_array (times_list s), np_array (positions s), np_array (velocities s),
       \<lparr>kinetic = np_array (ke s), potential = np_array (pe s),
        total = np_array (total_e s)\<rparr>))"

definition simulate_particle ::
  "arith \<Rightarrow> Particle1D \<Rightarrow> Potential \<Rightarrow> real \<Rightarrow> real \<Rightarrow> (stop + Particle1D \<times> trajectory) option" where
  "simulate_particle ar p pot duration dt =
     (case initial_locals ar p pot of
        Inl e \<Rightarrow> Some (Inl e)
      | Inr s0 \<Rightarrow>
          (case while_loop ar pot duration dt s0 of
             None \<Rightarrow> None
           | Some (Inl e) \<Rightarrow> Some (Inl e)
           | Some (Inr s) \<Rightarrow> Some (Inr (returned s))))"

section \<open>Basic facts about the arithmetic\<close>

lemma and_then_simps [simp]:
  "and_then (Inl e) f = Inl e"
  "and_then (Inr x) f = f x"
  by (simp_all add: and_then_def)

lemma and_then_Inr_iff: "and_then m f = Inr y \<longleftrightarrow> (\<exists>x. m = Inr x \<and> f x = Inr y)"
  by (cases m) simp_all

lemma number_of_simps [simp]:
  "val (number_of np x) = x"
  "numpy (number_of np x) = np"
  "number_of False x = PyFloat x"
  "number_of True x = Float64 x"
  by (simp_all add: number_of_def)

lemma val_fneg [simp]: "val (fneg a) = - val a" and numpy_fneg [simp]: "numpy (fneg a) = numpy a"
  by (cases a; simp)+

lemma val_fabs [simp]: "val (fabs a) = \<bar>val a\<bar>" and numpy_fabs [simp]: "numpy (fabs a) = numpy a"
  by (cases a; simp)+

lemma np_sign_simps [simp]: "val (np_sign a) = sgn (val a)" "numpy (np_sign a)"
  by (simp_all add: np_sign_def)

lemma number_eqI: "val a = val b \<Longrightarrow> numpy a = numpy b \<Longrightarrow> a = b"
  by (cases a; cases b) simp_all

text \<open>In exact arithmetic an operation fails only by a division by zero.\<close>

lemma exact_simps:
  "rnd exact x = Some x"
  "py_pow exact x n = Some (x ^ n)"
  "np_pow exact x n = Some (x ^ n)"
  "rounded exact np x = Inr (number_of np x)"
  "fadd exact a b = Inr (number_of (numpy a \<or> numpy b) (val a + val b))"
  "fsub exact a b = Inr (number_of (numpy a \<or> numpy b) (val a - val b))"
  "fmul exact a b = Inr (number_of (numpy a \<or> numpy b) (val a * val b))"
  "fdiv exact a b =
     (if val b = 0 then
        (if numpy a \<or> numpy b then Inl NonFinite else Inl (Raised ZeroDivisionError))
      else Inr (number_of (numpy a \<or> numpy b) (val a / val b)))"
  "fpow exact a n = Inr (number_of (numpy a) (val a ^ n))"
  by (simp_all add: exact_def rounded_def fadd_def fsub_def fmul_def fdiv_def fpow_def)

lemma exact_Inr_iff:
  "fadd exact a b = Inr c \<longleftrightarrow> c = number_of (numpy a \<or> numpy b) (val a + val b)"
  "fsub exact a b = Inr c \<longleftrightarrow> c = number_of (numpy a \<or> numpy b) (val a - val b)"
  "fmul exact a b = Inr c \<longleftrightarrow> c = number_of (numpy a \<or> numpy b) (val a * val b)"
  "fdiv exact a b = Inr c \<longleftrightarrow>
     val b \<noteq> 0 \<and> c = number_of (numpy a \<or> numpy b) (val a / val b)"
  "fpow exact a n = Inr c \<longleftrightarrow> c = number_of (numpy a) (val a ^ n)"
  by (auto simp: exact_simps)

lemma force_exact_total: "\<exists>f. force exact pot x = Inr f"
  by (cases pot) (simp_all add: exact_simps Let_def)

lemma potential_call_exact_total: "\<exists>e. potential_call exact pot x = Inr e"
  by (cases pot) (simp_all add: exact_simps Let_def)

text \<open>The value of a force or of a potential energy depends on the value of the position
  alone, not on its run-time type.\<close>

lemma force_exact_val:
  "force exact pot x = Inr f \<Longrightarrow> force exact pot y = Inr g \<Longrightarrow> val x = val y \<Longrightarrow> val f = val g"
  by (cases pot) (auto simp: exact_simps Let_def split: if_splits)

lemma potential_call_exact_val:
  "potential_call exact pot x = Inr f \<Longrightarrow> potential_call exact pot y = Inr g \<Longrightarrow>
     val x = val y \<Longrightarrow> val f = val g"
  by (cases pot) (auto simp: exact_simps Let_def split: if_splits)

lemma kinetic_energy_exact:
  "kinetic_energy exact p =
     Inr (number_of (numpy (mass p) \<or> numpy (velocity p))
            (1 / 2 * val (mass p) * (val (velocity p))\<^sup>2))"
  by (simp add: kinetic_energy_def exact_simps)

section \<open>Basic facts about one iteration\<close>

lemma apply_force_Inr:
  assumes "apply_force ar p f = Inr p'"
  shows "fdiv ar f (mass p) = Inr (acceleration p')"
    and "position p' = position p" and "velocity p' = velocity p" and "mass p' = mass p"
  using assms by (auto simp: apply_force_def and_then_Inr_iff)

lemma update_velocity_Inr:
  assumes "update_velocity ar p h = Inr p'"
  shows "\<exists>d. fmul ar (acceleration p) h = Inr d \<and> fadd ar (velocity p) d = Inr (velocity p')"
    and "position p' = position p" and "mass p' = mass p"
    and "acceleration p' = acceleration p"
  using assms by (auto simp: update_velocity_def and_then_Inr_iff)

lemma update_position_Inr:
  assumes "update_position ar p h = Inr p'"
  shows "\<exists>d. fmul ar (velocity p) h = Inr d \<and> fadd ar (position p) d = Inr (position p')"
    and "velocity p' = velocity p" and "mass p' = mass p"
    and "acceleration p' = acceleration p"
  using assms by (auto simp: update_position_def and_then_Inr_iff)

lemma verlet_Inr:
  assumes "verlet ar pot dt p = Inr p'"
  obtains f p1 h p2 p3 f' p4 where
    "force ar pot (position p) = Inr f" "apply_force ar p f = Inr p1"
    "fdiv ar (PyFloat dt) (PyFloat 2) = Inr h" "update_velocity ar p1 h = Inr p2"
    "update_position ar p2 (PyFloat dt) = Inr p3"
    "force ar pot (position p3) = Inr f'" "apply_force ar p3 f' = Inr p4"
    "update_velocity ar p4 h = Inr p'"
proof -
  from assms obtain f p1 h p2 p3 f' p4 h' where
    a: "force ar pot (position p) = Inr f" "apply_force ar p f = Inr p1"
    "fdiv ar (PyFloat dt) (PyFloat 2) = Inr h" "update_velocity ar p1 h = Inr p2"
    "update_position ar p2 (PyFloat dt) = Inr p3"
    "force ar pot (position p3) = Inr f'" "apply_force ar p3 f' = Inr p4"
    "fdiv ar (PyFloat dt) (PyFloat 2) = Inr h'" "update_velocity ar p4 h' = Inr p'"
    unfolding verlet_def and_then_Inr_iff by blast
  from a(3,8) have "h' = h" by simp
  with a that show thesis by blast
qed

lemma verlet_mass: "verlet ar pot dt p = Inr p' \<Longrightarrow> mass p' = mass p"
  by (erule verlet_Inr)
    (simp add: apply_force_Inr(4) update_velocity_Inr(3) update_position_Inr(3))

lemma loop_body_Inr:
  assumes "loop_body ar pot dt s = Inr s'"
  shows "verlet ar pot dt (particle s) = Inr (particle s')"
    and "fadd ar (time s) (PyFloat dt) = Inr (time s')"
    and "times_list s' = times_list s @ [time s']"
    and "positions s' = positions s @ [position (particle s')]"
    and "velocities s' = velocities s @ [velocity (particle s')]"
    and "\<exists>k. kinetic_energy ar (particle s') = Inr k \<and> ke s' = ke s @ [k]"
    and "\<exists>e. potential_call ar pot (position (particle s')) = Inr e \<and> pe s' = pe s @ [e]"
    and "\<exists>k e t. ke s' = ke s @ [k] \<and> pe s' = pe s @ [e] \<and> total_e s' = total_e s @ [t]
          \<and> fadd ar k e = Inr t"
  using assms by (auto simp: loop_body_def and_then_Inr_iff)

lemma loop_body_mass:
  "loop_body ar pot dt s = Inr s' \<Longrightarrow> mass (particle s') = mass (particle s)"
  using loop_body_Inr(1) [of ar pot dt s s'] verlet_mass by blast

section \<open>Basic facts about the loop\<close>

lemma while_loop_stop:
  "\<not> val (time s) < duration \<Longrightarrow> while_loop ar pot duration dt s = Some (Inr s)"
  by (subst while_loop.simps) simp

lemma while_loop_step:
  "val (time s) < duration \<Longrightarrow> loop_body ar pot dt s = Inr s' \<Longrightarrow>
     while_loop ar pot duration dt s = while_loop ar pot duration dt s'"
  by (subst while_loop.simps) simp

lemma while_loop_fail:
  "val (time s) < duration \<Longrightarrow> loop_body ar pot dt s = Inl e \<Longrightarrow>
     while_loop ar pot duration dt s = Some (Inl e)"
  by (subst while_loop.simps) simp

lemma while_loop_invariant:
  assumes run: "while_loop ar pot duration dt s = Some (Inr s')"
    and init: "I s"
    and step: "\<And>a b. I a \<Longrightarrow> val (time a) < duration \<Longrightarrow> loop_body ar pot dt a = Inr b \<Longrightarrow> I b"
  shows "I s' \<and> \<not> val (time s') < duration"
proof -
  define Q where "Q = (\<lambda>ar' pot' duration' dt' a (r :: stop + locals).
     ar' = ar \<longrightarrow> pot' = pot \<longrightarrow> duration' = duration \<longrightarrow> dt' = dt \<longrightarrow> I a \<longrightarrow>
     (\<forall>t. r = Inr t \<longrightarrow> I t \<and> \<not> val (time t) < duration))"
  have "Q ar pot duration dt s (Inr s')"
  proof (rule while_loop.raw_induct [where P = Q, OF _ run])
    fix f :: "arith \<Rightarrow> Potential \<Rightarrow> real \<Rightarrow> real \<Rightarrow> locals \<Rightarrow> (stop + locals) option"
    fix ar' pot' duration' dt' a r
    assume ih: "\<And>pot duration dt s b y. f pot duration dt s b = Some y \<Longrightarrow> Q pot duration dt s b y"
      and body: "(if val (time a) < duration' then
            (case loop_body ar' pot' dt' a of Inl e \<Rightarrow> Some (Inl e)
             | Inr s' \<Rightarrow> f ar' pot' duration' dt' s')
          else Some (Inr a)) = Some r"
    show "Q ar' pot' duration' dt' a r"
      unfolding Q_def
    proof (intro impI allI)
      fix t
      assume eqs: "ar' = ar" "pot' = pot" "duration' = duration" "dt' = dt"
        and i: "I a" and r: "r = Inr t"
      show "I t \<and> \<not> val (time t) < duration"
      proof (cases "val (time a) < duration")
        case False
        with body r i eqs show ?thesis by simp
      next
        case True
        show ?thesis
        proof (cases "loop_body ar pot dt a")
          case (Inl e)
          with True body r eqs show ?thesis by simp
        next
          case (Inr b)
          with True body eqs have "f ar pot duration dt b = Some r" by simp
          then have "Q ar pot duration dt b r" by (rule ih)
          moreover have "I b" using step i True Inr by blast
          ultimately show ?thesis using r by (simp add: Q_def)
        qed
      qed
    qed
  qed
  with init show ?thesis by (simp add: Q_def)
qed

lemma initial_locals_Inr:
  assumes "initial_locals ar p pot = Inr s"
  shows "particle s = p" and "time s = PyFloat 0" and "times_list s = [PyFloat 0]"
    and "positions s = [position p]" and "velocities s = [velocity p]"
    and "\<exists>k e t. kinetic_energy ar p = Inr k \<and> potential_call ar pot (position p) = Inr e
          \<and> fadd ar k e = Inr t \<and> ke s = [k] \<and> pe s = [e] \<and> total_e s = [t]"
  using assms by (auto simp: initial_locals_def and_then_Inr_iff)

lemma simulate_particle_returned:
  assumes "simulate_particle ar p pot duration dt = Some (Inr (p', ts, xs, vs, en))"
  obtains s0 s where "initial_locals ar p pot = Inr s0"
    and "while_loop ar pot duration dt s0 = Some (Inr s)"
    and "p' = particle s" and "ts = np_array (times_list s)" and "xs = np_array (positions s)"
    and "vs = np_array (velocities s)" and "kinetic en = np_array (ke s)"
    and "potential en = np_array (pe s)" and "total en = np_array (total_e s)"
proof -
  from assms obtain s0 s where "initial_locals ar p pot = Inr s0"
    and "while_loop ar pot duration dt s0 = Some (Inr s)"
    and "(p', ts, xs, vs, en) = returned s"
    by (auto simp: simulate_particle_def split: sum.splits option.splits)
  then show thesis
    using that [of s0 s] by (auto simp: returned_def)
qed

lemma nth_snoc_old: "i < length xs \<Longrightarrow> (xs @ [x]) ! i = xs ! i"
  by (simp add: nth_append)

lemma nth_snoc_last:
  assumes "Suc i = length xs"
  shows "(xs @ [x]) ! i = last xs"
proof -
  from assms have "i < length xs" "length xs - 1 = i" "xs \<noteq> []"
    by auto
  then show ?thesis
    by (simp add: nth_append last_conv_nth)
qed

lemma nth_snoc_length: "n = length xs \<Longrightarrow> (xs @ [x]) ! n = x"
  by simp

text \<open>The shape of the recorded sequences, in every arithmetic: equal lengths, first and
  last entries.\<close>

lemma while_loop_shape:
  assumes init: "initial_locals ar p pot = Inr s0"
    and run: "while_loop ar pot duration dt s0 = Some (Inr s)"
  shows "times_list s \<noteq> []"
    and "length (positions s) = length (times_list s)"
    and "length (velocities s) = length (times_list s)"
    and "length (ke s) = length (times_list s)"
    and "length (pe s) = length (times_list s)"
    and "length (total_e s) = length (times_list s)"
    and "times_list s ! 0 = PyFloat 0"
    and "positions s ! 0 = position p"
    and "velocities s ! 0 = velocity p"
    and "last (times_list s) = time s"
    and "last (positions s) = position (particle s)"
    and "last (velocities s) = velocity (particle s)"
    and "mass (particle s) = mass p"
    and "\<not> val (time s) < duration"
proof -
  define I where "I = (\<lambda>s :: locals.
       times_list s \<noteq> []
     \<and> length (positions s) = length (times_list s)
     \<and> length (velocities s) = length (times_list s)
     \<and> length (ke s) = length (times_list s)
     \<and> length (pe s) = length (times_list s)
     \<and> length (total_e s) = length (times_list s)
     \<and> times_list s ! 0 = PyFloat 0
     \<and> positions s ! 0 = position p
     \<and> velocities s ! 0 = velocity p
     \<and> last (times_list s) = time s
     \<and> last (positions s) = position (particle s)
     \<and> last (velocities s) = velocity (particle s)
     \<and> mass (particle s) = mass p)"
  have i0: "I s0"
    using initial_locals_Inr [OF init] by (auto simp: I_def)
  have step: "I b" if "I a" and b: "loop_body ar pot dt a = Inr b" for a b
  proof -
    note f = loop_body_Inr(3,4,5) [OF b] loop_body_mass [OF b]
    from loop_body_Inr(8) [OF b] obtain k e t
      where l: "ke b = ke a @ [k]" "pe b = pe a @ [e]" "total_e b = total_e a @ [t]"
      by blast
    from that(1) have "times_list a \<noteq> []" "positions a \<noteq> []" "velocities a \<noteq> []"
      by (auto simp: I_def)
    then show ?thesis
      using that(1) by (simp add: I_def f l nth_append)
  qed
  have "I s \<and> \<not> val (time s) < duration"
    using while_loop_invariant [OF run, of I] i0 step by blast
  then show "times_list s \<noteq> []"
    and "length (positions s) = length (times_list s)"
    and "length (velocities s) = length (times_list s)"
    and "length (ke s) = length (times_list s)"
    and "length (pe s) = length (times_list s)"
    and "length (total_e s) = length (times_list s)"
    and "times_list s ! 0 = PyFloat 0"
    and "positions s ! 0 = position p"
    and "velocities s ! 0 = velocity p"
    and "last (times_list s) = time s"
    and "last (positions s) = position (particle s)"
    and "last (velocities s) = velocity (particle s)"
    and "mass (particle s) = mass p"
    and "\<not> val (time s) < duration"
    by (simp_all add: I_def)
qed

section \<open>One iteration in exact arithmetic\<close>

lemma verlet_exact:
  assumes m: "val (mass p) \<noteq> 0" and f0: "force exact pot (position p) = Inr f0"
  obtains p' f1 where "verlet exact pot dt p = Inr p'"
    and "mass p' = mass p"
    and "val (position p') =
      val (position p) + (val (velocity p) + val f0 / val (mass p) * (dt / 2)) * dt"
    and "force exact pot (position p') = Inr f1"
    and "val (velocity p') =
      (val (velocity p) + val f0 / val (mass p) * (dt / 2)) + val f1 / val (mass p) * (dt / 2)"
proof -
  obtain p1 where p1: "apply_force exact p f0 = Inr p1"
    using m by (simp add: apply_force_def exact_simps)
  note a1 = apply_force_Inr [OF p1]
  have acc1: "val (acceleration p1) = val f0 / val (mass p)"
    using a1(1) m by (auto simp: exact_Inr_iff)
  have h: "fdiv exact (PyFloat dt) (PyFloat 2) = Inr (PyFloat (dt / 2))"
    by (simp add: exact_simps)
  obtain p2 where p2: "update_velocity exact p1 (PyFloat (dt / 2)) = Inr p2"
    by (simp add: update_velocity_def exact_simps)
  note a2 = update_velocity_Inr [OF p2]
  have v2: "val (velocity p2) = val (velocity p) + val f0 / val (mass p) * (dt / 2)"
    using a2(1) a1(3) acc1 by (auto simp: exact_Inr_iff)
  obtain p3 where p3: "update_position exact p2 (PyFloat dt) = Inr p3"
    by (simp add: update_position_def exact_simps)
  note a3 = update_position_Inr [OF p3]
  have x3: "val (position p3) =
      val (position p) + (val (velocity p) + val f0 / val (mass p) * (dt / 2)) * dt"
    using a3(1) a2(2) a1(2) v2 by (auto simp: exact_Inr_iff)
  obtain f1 where f1: "force exact pot (position p3) = Inr f1"
    using force_exact_total by blast
  have m3: "mass p3 = mass p"
    using a3(3) a2(3) a1(4) by simp
  obtain p4 where p4: "apply_force exact p3 f1 = Inr p4"
    using m m3 by (simp add: apply_force_def exact_simps)
  note a4 = apply_force_Inr [OF p4]
  have acc4: "val (acceleration p4) = val f1 / val (mass p)"
    using a4(1) m m3 by (auto simp: exact_Inr_iff)
  obtain p5 where p5: "update_velocity exact p4 (PyFloat (dt / 2)) = Inr p5"
    by (simp add: update_velocity_def exact_simps)
  note a5 = update_velocity_Inr [OF p5]
  have v5: "val (velocity p5) =
      (val (velocity p) + val f0 / val (mass p) * (dt / 2)) + val f1 / val (mass p) * (dt / 2)"
    using a5(1) a4(3) a3(2) acc4 v2 by (auto simp: exact_Inr_iff)
  have "verlet exact pot dt p = Inr p5"
    by (simp add: verlet_def f0 p1 h p2 p3 f1 p4 p5)
  moreover have "mass p5 = mass p"
    using a5(3) a4(4) m3 by simp
  moreover have "position p5 = position p3"
    using a5(2) a4(2) by simp
  ultimately show thesis
    using that [of p5 f1] x3 f1 v5 by simp
qed

lemma verlet_exact_zero_mass:
  assumes "val (mass p) = 0" and "force exact pot (position p) = Inr f0"
  shows "verlet exact pot dt p =
     Inl (if numpy f0 \<or> numpy (mass p) then NonFinite else Raised ZeroDivisionError)"
  using assms by (simp add: verlet_def apply_force_def exact_simps)

lemma verlet_exact_Inr_mass:
  assumes "verlet exact pot dt p = Inr p'"
  shows "val (mass p) \<noteq> 0"
proof
  assume z: "val (mass p) = 0"
  obtain f0 where "force exact pot (position p) = Inr f0"
    using force_exact_total by blast
  from verlet_exact_zero_mass [OF z this] assms show False
    by (simp split: if_splits)
qed

lemma loop_body_exact:
  assumes "val (mass (particle s)) \<noteq> 0"
  obtains s' where "loop_body exact pot dt s = Inr s'"
proof -
  obtain f0 where "force exact pot (position (particle s)) = Inr f0"
    using force_exact_total by blast
  from verlet_exact [OF assms this] obtain p'
    where v: "verlet exact pot dt (particle s) = Inr p'"
    by blast
  obtain e where e: "potential_call exact pot (position p') = Inr e"
    using potential_call_exact_total by blast
  show thesis
    by (rule that) (simp add: loop_body_def v e kinetic_energy_exact exact_simps)
qed

lemma loop_body_exact_time:
  "loop_body exact pot dt s = Inr s' \<Longrightarrow> val (time s') = val (time s) + dt"
  using loop_body_Inr(2) [of exact pot dt s s'] by (auto simp: exact_Inr_iff)

lemma loop_body_exact_zero_mass:
  assumes "val (mass (particle s)) = 0"
    and "force exact pot (position (particle s)) = Inr f0"
  shows "loop_body exact pot dt s =
     Inl (if numpy f0 \<or> numpy (mass (particle s)) then NonFinite else Raised ZeroDivisionError)"
  using verlet_exact_zero_mass [OF assms, of dt] by (simp add: loop_body_def)

lemma initial_locals_exact:
  obtains s0 where "initial_locals exact p pot = Inr s0"
proof -
  obtain e where e: "potential_call exact pot (position p) = Inr e"
    using potential_call_exact_total by blast
  show thesis
    by (rule that) (simp add: initial_locals_def e kinetic_energy_exact exact_simps)
qed

section \<open>The loop in exact arithmetic\<close>

lemma while_loop_exact_returns:
  assumes "0 < dt" and "val (mass (particle s)) \<noteq> 0"
  shows "\<exists>t. while_loop exact pot duration dt s = Some (Inr t)"
  using assms(2)
proof (induction "nat \<lceil>(duration - val (time s)) / dt\<rceil>" arbitrary: s rule: less_induct)
  case less
  show ?case
  proof (cases "val (time s) < duration")
    case False
    then show ?thesis by (simp add: while_loop_stop)
  next
    case True
    from less.prems obtain s' where b: "loop_body exact pot dt s = Inr s'"
      by (rule loop_body_exact)
    have t: "val (time s') = val (time s) + dt"
      using b by (rule loop_body_exact_time)
    have "(duration - val (time s')) / dt = (duration - val (time s)) / dt - 1"
      using assms(1) t by (simp add: field_simps)
    moreover have "0 < (duration - val (time s)) / dt"
      using True assms(1) by simp
    ultimately have "nat \<lceil>(duration - val (time s')) / dt\<rceil>
        < nat \<lceil>(duration - val (time s)) / dt\<rceil>"
      by (simp add: nat_less_iff)
    moreover have "val (mass (particle s')) \<noteq> 0"
      using loop_body_mass [OF b] less.prems by simp
    ultimately obtain t where "while_loop exact pot duration dt s' = Some (Inr t)"
      using less.hyps by blast
    then show ?thesis
      using while_loop_step [OF True b] by simp
  qed
qed

lemma while_loop_exact_diverges:
  assumes "dt \<le> 0" and "val (time s) < duration" and "val (mass (particle s)) \<noteq> 0"
  shows "while_loop exact pot duration dt s = None"
proof (rule ccontr)
  assume "while_loop exact pot duration dt s \<noteq> None"
  then obtain r where run: "while_loop exact pot duration dt s = Some r" by blast
  define Q where "Q = (\<lambda>ar' (pot' :: Potential) duration' dt' (a :: locals) (r :: stop + locals).
     ar' = exact \<longrightarrow> dt' \<le> (0::real) \<longrightarrow> val (time a) < duration' \<longrightarrow>
       val (mass (particle a)) \<noteq> 0 \<longrightarrow> False)"
  have "Q exact pot duration dt s r"
  proof (rule while_loop.raw_induct [where P = Q, OF _ run])
    fix f :: "arith \<Rightarrow> Potential \<Rightarrow> real \<Rightarrow> real \<Rightarrow> locals \<Rightarrow> (stop + locals) option"
    fix ar' pot' duration' dt' a r
    assume ih: "\<And>pot duration dt s b y. f pot duration dt s b = Some y \<Longrightarrow> Q pot duration dt s b y"
      and body: "(if val (time a) < duration' then
            (case loop_body ar' pot' dt' a of Inl e \<Rightarrow> Some (Inl e)
             | Inr s' \<Rightarrow> f ar' pot' duration' dt' s')
          else Some (Inr a)) = Some r"
    show "Q ar' pot' duration' dt' a r"
      unfolding Q_def
    proof (intro impI)
      assume h: "ar' = exact" "dt' \<le> 0" "val (time a) < duration'"
        "val (mass (particle a)) \<noteq> 0"
      from h(4) obtain b where b: "loop_body exact pot' dt' a = Inr b"
        by (rule loop_body_exact)
      with body h(1,3) have "f ar' pot' duration' dt' b = Some r" by simp
      then have "Q ar' pot' duration' dt' b r" by (rule ih)
      moreover have "val (time b) = val (time a) + dt'"
        using b by (rule loop_body_exact_time)
      moreover have "val (mass (particle b)) \<noteq> 0"
        using loop_body_mass [OF b] h(4) by simp
      ultimately show False using h by (simp add: Q_def)
    qed
  qed
  with assms show False by (simp add: Q_def)
qed

text \<open>The outcome of a run in exact arithmetic, by cases.\<close>

lemma simulate_particle_exact_returns:
  assumes "duration \<le> 0 \<or> (0 < dt \<and> val (mass p) \<noteq> 0)"
  shows "\<exists>r. simulate_particle exact p pot duration dt = Some (Inr r)"
proof -
  obtain s0 where s0: "initial_locals exact p pot = Inr s0"
    by (rule initial_locals_exact)
  note i = initial_locals_Inr [OF s0]
  have "\<exists>t. while_loop exact pot duration dt s0 = Some (Inr t)"
  proof (cases "duration \<le> 0")
    case True
    then show ?thesis by (simp add: while_loop_stop i(2))
  next
    case False
    with assms show ?thesis
      using while_loop_exact_returns [of dt s0 pot duration] by (simp add: i(1))
  qed
  then show ?thesis
    by (auto simp: simulate_particle_def s0 simp del: split_paired_Ex)
qed

lemma simulate_particle_exact_diverges:
  assumes "dt \<le> 0" and "0 < duration" and "val (mass p) \<noteq> 0"
  shows "simulate_particle exact p pot duration dt = None"
proof -
  obtain s0 where s0: "initial_locals exact p pot = Inr s0"
    by (rule initial_locals_exact)
  note i = initial_locals_Inr [OF s0]
  have "while_loop exact pot duration dt s0 = None"
    using assms by (intro while_loop_exact_diverges) (simp_all add: i)
  then show ?thesis
    by (simp add: simulate_particle_def s0)
qed

lemma simulate_particle_exact_zero_mass:
  assumes "val (mass p) = 0" and "0 < duration"
    and "force exact pot (position p) = Inr f0"
  shows "simulate_particle exact p pot duration dt =
     Some (Inl (if numpy f0 \<or> numpy (mass p) then NonFinite else Raised ZeroDivisionError))"
proof -
  obtain s0 where s0: "initial_locals exact p pot = Inr s0"
    by (rule initial_locals_exact)
  note i = initial_locals_Inr [OF s0]
  have "loop_body exact pot dt s0 =
     Inl (if numpy f0 \<or> numpy (mass p) then NonFinite else Raised ZeroDivisionError)"
    using loop_body_exact_zero_mass [of s0 pot f0 dt] assms by (simp add: i)
  then have "while_loop exact pot duration dt s0 =
     Some (Inl (if numpy f0 \<or> numpy (mass p) then NonFinite else Raised ZeroDivisionError))"
    using assms(2) by (intro while_loop_fail) (simp_all add: i)
  then show ?thesis
    by (simp add: simulate_particle_def s0)
qed

text \<open>Consecutive samples are one iteration apart, and an iteration is taken only while
  the time before it is below the duration.\<close>

lemma while_loop_exact_steps:
  assumes init: "initial_locals exact p pot = Inr s0"
    and run: "while_loop exact pot duration dt s0 = Some (Inr s)"
    and i: "Suc i < length (times_list s)"
  obtains f0 f1 where "force exact pot (positions s ! i) = Inr f0"
    and "force exact pot (positions s ! Suc i) = Inr f1"
    and "val (positions s ! Suc i) =
      val (positions s ! i)
        + (val (velocities s ! i) + val f0 / val (mass p) * (dt / 2)) * dt"
    and "val (velocities s ! Suc i) =
      (val (velocities s ! i) + val f0 / val (mass p) * (dt / 2))
        + val f1 / val (mass p) * (dt / 2)"
    and "val (times_list s ! Suc i) = val (times_list s ! i) + dt"
    and "val (times_list s ! i) < duration"
    and "val (mass p) \<noteq> 0"
proof -
  define R where "R = (\<lambda>t x v t' x' v'.
       val t' = val t + dt \<and> val t < duration \<and> val (mass p) \<noteq> 0
     \<and> (\<exists>f0 f1. force exact pot x = Inr f0 \<and> force exact pot x' = Inr f1
        \<and> val x' = val x + (val v + val f0 / val (mass p) * (dt / 2)) * dt
        \<and> val v' = (val v + val f0 / val (mass p) * (dt / 2))
            + val f1 / val (mass p) * (dt / 2)))"
  define I where "I = (\<lambda>s :: locals.
       times_list s \<noteq> []
     \<and> length (positions s) = length (times_list s)
     \<and> length (velocities s) = length (times_list s)
     \<and> last (times_list s) = time s
     \<and> last (positions s) = position (particle s)
     \<and> last (velocities s) = velocity (particle s)
     \<and> mass (particle s) = mass p
     \<and> (\<forall>i. Suc i < length (times_list s) \<longrightarrow>
          R (times_list s ! i) (positions s ! i) (velocities s ! i)
            (times_list s ! Suc i) (positions s ! Suc i) (velocities s ! Suc i)))"
  have i0: "I s0"
    using initial_locals_Inr [OF init] by (auto simp: I_def)
  have step: "I b" if a: "I a" and t: "val (time a) < duration"
    and body: "loop_body exact pot dt a = Inr b" for a b
  proof -
    note b = loop_body_Inr(1,3,4,5) [OF body] loop_body_mass [OF body]
    from a have ne: "times_list a \<noteq> []" "positions a \<noteq> []" "velocities a \<noteq> []"
      and len: "length (positions a) = length (times_list a)"
        "length (velocities a) = length (times_list a)"
      and lst: "last (times_list a) = time a" "last (positions a) = position (particle a)"
        "last (velocities a) = velocity (particle a)"
      and m: "mass (particle a) = mass p"
      and old: "\<And>i. Suc i < length (times_list a) \<Longrightarrow>
          R (times_list a ! i) (positions a ! i) (velocities a ! i)
            (times_list a ! Suc i) (positions a ! Suc i) (velocities a ! Suc i)"
      by (auto simp: I_def)
    have m0: "val (mass (particle a)) \<noteq> 0"
      using b(1) by (rule verlet_exact_Inr_mass)
    obtain f0 where f0: "force exact pot (position (particle a)) = Inr f0"
      using force_exact_total by blast
    from verlet_exact [OF m0 f0, of dt] b(1) obtain f1
      where v: "force exact pot (position (particle b)) = Inr f1"
        "val (position (particle b)) =
          val (position (particle a))
            + (val (velocity (particle a)) + val f0 / val (mass (particle a)) * (dt / 2)) * dt"
        "val (velocity (particle b)) =
          (val (velocity (particle a)) + val f0 / val (mass (particle a)) * (dt / 2))
            + val f1 / val (mass (particle a)) * (dt / 2)"
      by auto
    have new: "R (time a) (position (particle a)) (velocity (particle a))
        (time b) (position (particle b)) (velocity (particle b))"
      unfolding R_def using v f0 t m m0 loop_body_exact_time [OF body] by auto
    have "R (times_list b ! i) (positions b ! i) (velocities b ! i)
            (times_list b ! Suc i) (positions b ! Suc i) (velocities b ! Suc i)"
      if "Suc i < length (times_list b)" for i
    proof (cases "Suc i < length (times_list a)")
      case True
      then show ?thesis
        using old [OF True] len by (simp add: b nth_snoc_old)
    next
      case False
      with that have e: "Suc i = length (times_list a)"
        by (simp add: b(2))
      have "times_list b ! i = time a" "positions b ! i = position (particle a)"
        "velocities b ! i = velocity (particle a)"
        using e len lst by (simp_all add: b(2,3,4) nth_snoc_last)
      moreover have "times_list b ! Suc i = time b"
        "positions b ! Suc i = position (particle b)"
        "velocities b ! Suc i = velocity (particle b)"
        using e len by (simp_all add: b(2,3,4) nth_snoc_length)
      ultimately show ?thesis
        using new by simp
    qed
    then show ?thesis
      using ne len lst m by (simp add: I_def b)
  qed
  have "I s"
    using while_loop_invariant [OF run, of I] i0 step by blast
  then have "R (times_list s ! i) (positions s ! i) (velocities s ! i)
            (times_list s ! Suc i) (positions s ! Suc i) (velocities s ! Suc i)"
    using i by (simp add: I_def)
  then show thesis
    unfolding R_def using that by blast
qed

text \<open>Every energy entry is computed from the sample of the same index.\<close>

lemma while_loop_exact_energies:
  assumes init: "initial_locals exact p pot = Inr s0"
    and run: "while_loop exact pot duration dt s0 = Some (Inr s)"
    and i: "i < length (times_list s)"
  obtains e where "potential_call exact pot (positions s ! i) = Inr e"
    and "val (pe s ! i) = val e"
    and "val (ke s ! i) = 1 / 2 * val (mass p) * (val (velocities s ! i))\<^sup>2"
    and "val (total_e s ! i) = val (ke s ! i) + val (pe s ! i)"
proof -
  define E where "E = (\<lambda>x v k u t.
       potential_call exact pot x = Inr u
     \<and> val k = 1 / 2 * val (mass p) * (val v)\<^sup>2
     \<and> val t = val k + val u)"
  define I where "I = (\<lambda>s :: locals.
       length (positions s) = length (times_list s)
     \<and> length (velocities s) = length (times_list s)
     \<and> length (ke s) = length (times_list s)
     \<and> length (pe s) = length (times_list s)
     \<and> length (total_e s) = length (times_list s)
     \<and> mass (particle s) = mass p
     \<and> (\<forall>i < length (times_list s).
          E (positions s ! i) (velocities s ! i) (ke s ! i) (pe s ! i) (total_e s ! i)))"
  have i0: "I s0"
    using initial_locals_Inr [OF init]
    by (auto simp: I_def E_def kinetic_energy_exact exact_Inr_iff)
  have step: "I b" if a: "I a" and body: "loop_body exact pot dt a = Inr b" for a b
  proof -
    note b = loop_body_Inr(3,4,5) [OF body] loop_body_mass [OF body]
    from loop_body_Inr(6,7,8) [OF body] obtain k e t
      where l: "ke b = ke a @ [k]" "pe b = pe a @ [e]" "total_e b = total_e a @ [t]"
        and c: "kinetic_energy exact (particle b) = Inr k"
        "potential_call exact pot (position (particle b)) = Inr e" "fadd exact k e = Inr t"
      by auto
    from a have m: "mass (particle a) = mass p" by (simp add: I_def)
    have new: "E (position (particle b)) (velocity (particle b)) k e t"
      using c m b(4) by (auto simp: E_def kinetic_energy_exact exact_Inr_iff)
    show ?thesis
      using a new by (auto simp: I_def b l nth_append less_Suc_eq)
  qed
  have "I s"
    using while_loop_invariant [OF run, of I] i0 step by blast
  then have "E (positions s ! i) (velocities s ! i) (ke s ! i) (pe s ! i) (total_e s ! i)"
    using i by (simp add: I_def)
  then show thesis
    unfolding E_def using that by blast
qed

text \<open>In exact arithmetic the recorded time of sample \<open>i\<close> is \<open>i * dt\<close>.\<close>

lemma while_loop_exact_times:
  assumes init: "initial_locals exact p pot = Inr s0"
    and run: "while_loop exact pot duration dt s0 = Some (Inr s)"
  shows "i < length (times_list s) \<Longrightarrow> val (times_list s ! i) = real i * dt"
proof (induction i)
  case 0
  show ?case using while_loop_shape(7) [OF init run] by simp
next
  case (Suc i)
  from while_loop_exact_steps [OF init run Suc.prems]
  have "val (times_list s ! Suc i) = val (times_list s ! i) + dt"
    by blast
  with Suc show ?case
    by (simp add: algebra_simps)
qed

text \<open>The number of samples of a run in exact arithmetic.\<close>

lemma while_loop_exact_length:
  assumes init: "initial_locals exact p pot = Inr s0"
    and run: "while_loop exact pot duration dt s0 = Some (Inr s)"
    and "0 < dt" and "0 < duration"
  shows "length (times_list s) = nat \<lceil>duration / dt\<rceil> + 1"
proof -
  note sh = while_loop_shape [OF init run]
  define n where "n = length (times_list s) - 1"
  from sh(1) have len: "length (times_list s) = Suc n"
    by (cases "times_list s") (simp_all add: n_def)
  have "last (times_list s) = times_list s ! n"
    using sh(1) by (simp add: last_conv_nth n_def)
  then have "val (time s) = real n * dt"
    using while_loop_exact_times [OF init run, of n] len sh(10) by simp
  then have ge: "duration \<le> real n * dt"
    using sh(14) by simp
  with assms(3,4) have "0 < n"
    by (cases n) auto
  then obtain k where k: "n = Suc k"
    by (cases n) auto
  have "Suc k < length (times_list s)"
    using len k by simp
  from while_loop_exact_steps [OF init run this]
  have "val (times_list s ! k) < duration"
    by blast
  then have lt: "real k * dt < duration"
    using while_loop_exact_times [OF init run, of k] len k by simp
  from lt assms(3) have "real k < duration / dt"
    by (simp add: pos_less_divide_eq)
  moreover from ge assms(3) have "duration / dt \<le> real n"
    by (simp add: pos_divide_le_eq)
  ultimately have "\<lceil>duration / dt\<rceil> = int n"
    using k by (intro ceiling_unique) simp_all
  then show ?thesis
    using len by simp
qed

section \<open>The rounding to binary64\<close>

lemmas binary64_defs = binary64_def binary64_round_def binary64_pow_def exponent2_def
  round_even_def compute_bitlen rounded_def fadd_def fsub_def fmul_def fdiv_def fpow_def

lemmas run_defs = simulate_particle_def initial_locals_def loop_body_def verlet_def
  apply_force_def update_position_def update_velocity_def kinetic_energy_def returned_def
  np_array_def Let_def

lemma exponent2_bounds:
  assumes "0 < x"
  shows "2 powi exponent2 x \<le> x" and "x < 2 powi (exponent2 x + 1)"
proof -
  have "2 powi exponent2 x \<le> x \<and> x < 2 powi (exponent2 x + 1)"
  proof (cases "1 \<le> x")
    case True
    define n where "n = \<lfloor>x\<rfloor>"
    from True have n: "0 < n" by (simp add: n_def)
    then have b: "1 \<le> bitlen n" by (simp add: bitlen_alt_def)
    from bitlen_bounds [OF n]
    have lo: "2 ^ nat (bitlen n - 1) \<le> n" and hi: "n < 2 ^ nat (bitlen n)"
      by simp_all
    have "(2::real) ^ nat (bitlen n - 1) \<le> real_of_int n"
      using lo of_int_le_iff [where ?'a = real, of "2 ^ nat (bitlen n - 1)" n] by simp
    moreover have "real_of_int n \<le> x" by (simp add: n_def)
    ultimately have l: "2 ^ nat (bitlen n - 1) \<le> x" by linarith
    have "n + 1 \<le> 2 ^ nat (bitlen n)" using hi by simp
    then have "real_of_int n + 1 \<le> 2 ^ nat (bitlen n)"
      using of_int_le_iff [where ?'a = real, of "n + 1" "2 ^ nat (bitlen n)"] by simp
    moreover have "x < real_of_int n + 1" unfolding n_def by linarith
    ultimately have h: "x < 2 ^ nat (bitlen n)" by linarith
    have e: "exponent2 x = bitlen n - 1"
      using True by (simp add: exponent2_def n_def)
    have "(2::real) powi (bitlen n - 1) = 2 ^ nat (bitlen n - 1)"
      using b by (simp add: power_int_def)
    moreover have "(2::real) powi (bitlen n - 1 + 1) = 2 ^ nat (bitlen n)"
      using b by (simp add: power_int_def)
    ultimately show ?thesis
      using l h by (simp add: e)
  next
    case False
    define y where "y = 1 / x"
    define n where "n = \<lceil>y\<rceil> - 1"
    from False assms have y: "1 < y" by (simp add: y_def)
    then have n: "0 < n" by (simp add: n_def)
    then have b: "1 \<le> bitlen n" by (simp add: bitlen_alt_def)
    from bitlen_bounds [OF n]
    have lo: "2 ^ nat (bitlen n - 1) \<le> n" and hi: "n < 2 ^ nat (bitlen n)"
      by simp_all
    have "(2::real) ^ nat (bitlen n - 1) \<le> real_of_int n"
      using lo of_int_le_iff [where ?'a = real, of "2 ^ nat (bitlen n - 1)" n] by simp
    moreover have "real_of_int n < y" unfolding n_def by linarith
    ultimately have l: "2 ^ nat (bitlen n - 1) < y" by linarith
    have "n + 1 \<le> 2 ^ nat (bitlen n)" using hi by simp
    then have "real_of_int n + 1 \<le> 2 ^ nat (bitlen n)"
      using of_int_le_iff [where ?'a = real, of "n + 1" "2 ^ nat (bitlen n)"] by simp
    moreover have "y \<le> real_of_int n + 1" unfolding n_def by linarith
    ultimately have h: "y \<le> 2 ^ nat (bitlen n)" by linarith
    have e: "exponent2 x = - bitlen n"
      using False by (simp add: exponent2_def n_def y_def)
    have x: "x = 1 / y" using assms by (simp add: y_def)
    have p1: "(2::real) powi (- bitlen n) = 1 / 2 ^ nat (bitlen n)"
      using b by (simp add: power_int_def field_simps)
    have p2: "(2::real) powi (- bitlen n + 1) = 1 / 2 ^ nat (bitlen n - 1)"
      using b by (cases "bitlen n = 1") (simp_all add: power_int_def field_simps)
    have "1 / 2 ^ nat (bitlen n) \<le> x"
      unfolding x using h y by (simp add: field_simps)
    moreover have "x < 1 / 2 ^ nat (bitlen n - 1)"
      unfolding x using l y by (simp add: field_simps)
    ultimately show ?thesis
      unfolding e p1 p2 by simp
  qed
  then show "2 powi exponent2 x \<le> x" and "x < 2 powi (exponent2 x + 1)"
    by simp_all
qed

lemma round_even_nearest: "\<bar>real_of_int (round_even q) - q\<bar> \<le> 1 / 2"
proof -
  have "real_of_int \<lfloor>q\<rfloor> \<le> q" "q < real_of_int \<lfloor>q\<rfloor> + 1"
    by linarith+
  then show ?thesis
    by (auto simp: round_even_def Let_def)
qed

lemma round_even_of_int [simp]: "round_even (real_of_int n) = n"
  by (simp add: round_even_def)

text \<open>A finite result of the rounding is within half a unit in the last place of \<open>x\<close>.\<close>

lemma binary64_round_error:
  assumes "binary64_round x = Some y"
  shows "\<bar>y - x\<bar> \<le> 2 powi (max (exponent2 \<bar>x\<bar>) (- 1022) - 52) / 2"
proof (cases "x = 0")
  case True
  with assms show ?thesis by (simp add: binary64_round_def)
next
  case False
  define u :: real where "u = 2 powi (max (exponent2 \<bar>x\<bar>) (- 1022) - 52)"
  have u: "0 < u" by (simp add: u_def)
  define q where "q = \<bar>x\<bar> / u"
  have x: "sgn x * (q * u) = x"
    using u by (simp add: q_def sgn_real_def)
  have "y = sgn x * (of_int (round_even q) * u)"
    using assms False unfolding binary64_round_def Let_def u_def [symmetric] q_def [symmetric]
    by (simp split: if_splits)
  then have "y - x = sgn x * (of_int (round_even q) * u) - sgn x * (q * u)"
    using x by simp
  then have "y - x = sgn x * ((of_int (round_even q) - q) * u)"
    by (simp add: algebra_simps)
  then have "\<bar>y - x\<bar> = \<bar>of_int (round_even q) - q\<bar> * u"
    using False u by (simp add: abs_mult sgn_real_def)
  also have "\<dots> \<le> 1 / 2 * u"
    using round_even_nearest [of q] u by (intro mult_right_mono) simp_all
  finally show ?thesis by (simp add: u_def)
qed

text \<open>The Python literal \<open>0.1\<close> is the double below.\<close>

lemma binary64_one_tenth:
  "binary64_round (1 / 10) = Some (3602879701896397 / 36028797018963968)"
  by (simp add: binary64_defs Let_def)

text \<open>The multiples of \<open>2 ^ -53\<close> up to 1 are binary64 numbers.\<close>

lemma binary64_round_grid:
  fixes j :: nat
  assumes j: "1 \<le> j" "j \<le> 2 ^ 53"
  shows "binary64_round (real j / 2 ^ 53) = Some (real j / 2 ^ 53)"
proof (cases "j = 2 ^ 53")
  case True
  then show ?thesis
    by (simp add: binary64_defs Let_def)
next
  case False
  with j have lt: "j < 2 ^ 53" by simp
  define x where "x = real j / 2 ^ 53"
  have x0: "0 < x" using j by (simp add: x_def)
  have x1: "x < 1"
  proof -
    have "real j < real (2 ^ 53)" using lt by (simp only: of_nat_less_iff)
    then show ?thesis by (simp add: x_def)
  qed
  have xl: "1 / 2 ^ 53 \<le> x"
  proof -
    have "real 1 \<le> real j" using j(1) by (simp only: of_nat_le_iff)
    then show ?thesis by (simp add: x_def divide_right_mono)
  qed
  define e where "e = exponent2 x"
  note eb = exponent2_bounds [OF x0, folded e_def]
  have e_hi: "e \<le> - 1"
  proof (rule ccontr)
    assume "\<not> e \<le> - 1"
    then have "0 \<le> e" by simp
    then have "(1::real) \<le> 2 powi e"
      by (simp add: one_le_power_int)
    with eb(1) x1 show False by simp
  qed
  have e_lo: "- 53 \<le> e"
  proof (rule ccontr)
    assume "\<not> - 53 \<le> e"
    then have "e + 1 \<le> - 53" by simp
    then have "(2::real) powi (e + 1) \<le> 2 powi (- 53)"
      by (intro power_int_increasing) simp_all
    also have "\<dots> = 1 / 2 ^ 53"
      by (simp add: power_int_def power_divide)
    finally show False using eb(2) xl by simp
  qed
  define k where "k = nat (- 1 - e)"
  have e: "e = - 1 - int k"
    using e_hi by (simp add: k_def)
  have k: "k \<le> 52"
    using e_lo by (simp add: k_def)
  define u :: real where "u = 2 powi (e - 52)"
  have "e - 52 = - int (53 + k)"
    using e by simp
  then have u: "u = 1 / 2 ^ (53 + k)"
    unfolding u_def by (simp only: power_int_minus power_int_of_nat inverse_eq_divide)
  have q: "x / u = real_of_int (int j * 2 ^ k)"
    by (simp add: x_def u power_add)
  have m: "max e (- 1022) = e"
    using e_lo by simp
  have r: "real_of_int (round_even (x / u)) * u = x"
    unfolding q round_even_of_int using q u by (simp add: x_def power_add)
  have "binary64_round x = Some x"
    unfolding binary64_round_def Let_def
    using x0 x1 r by (simp add: e_def [symmetric] m u_def [symmetric])
  then show ?thesis
    by (simp add: x_def)
qed

section \<open>A run on binary64 whose time stops advancing\<close>

text \<open>A particle at rest in no field stays as it is, and its energies are 0.\<close>

lemma rest_verlet:
  "verlet (binary64 libm nplib) NoPotential (1 / 2 ^ 53)
      \<lparr>position = PyFloat 0, velocity = PyFloat 0, mass = PyFloat 1, acceleration = PyFloat 0\<rparr>
    = Inr \<lparr>position = PyFloat 0, velocity = PyFloat 0, mass = PyFloat 1,
        acceleration = PyFloat 0\<rparr>"
  by (simp add: verlet_def apply_force_def update_position_def update_velocity_def
      binary64_defs Let_def)

lemma rest_kinetic_energy:
  "kinetic_energy (binary64 libm nplib)
      \<lparr>position = PyFloat 0, velocity = PyFloat 0, mass = PyFloat 1, acceleration = PyFloat 0\<rparr>
    = Inr (PyFloat 0)"
  by (simp add: kinetic_energy_def binary64_defs Let_def)

lemma rest_total_energy: "fadd (binary64 libm nplib) (PyFloat 0) (PyFloat 0) = Inr (PyFloat 0)"
  by (simp add: binary64_defs)

text \<open>Adding \<open>2 ^ -53\<close> to a multiple of it below 1 is exact; added to 1 it is absorbed.\<close>

lemma grid_time_step:
  fixes j :: nat
  assumes "j \<le> 2 ^ 53"
  shows "fadd (binary64 libm nplib) (PyFloat (real j / 2 ^ 53)) (PyFloat (1 / 2 ^ 53)) =
     Inr (PyFloat (real (min (Suc j) (2 ^ 53)) / 2 ^ 53))"
proof (cases "j = 2 ^ 53")
  case True
  then show ?thesis
    by (simp add: binary64_defs Let_def)
next
  case False
  with assms have lt: "Suc j \<le> 2 ^ 53" by simp
  have s: "real j / 2 ^ 53 + 1 / 2 ^ 53 = real (Suc j) / 2 ^ 53"
    by (simp add: add_divide_distrib)
  have "binary64_round (real (Suc j) / 2 ^ 53) = Some (real (Suc j) / 2 ^ 53)"
    using lt by (intro binary64_round_grid) simp_all
  moreover have "min (Suc j) (2 ^ 53) = Suc j"
    using lt by simp
  moreover have "rnd (binary64 libm nplib) = binary64_round"
    by (simp add: binary64_def)
  ultimately show ?thesis
    by (simp only: fadd_def rounded_def val.simps numpy.simps s option.case number_of_simps
        simp_thms)
qed

lemma rest_loop_body:
  fixes j :: nat
  assumes "particle s =
      \<lparr>position = PyFloat 0, velocity = PyFloat 0, mass = PyFloat 1, acceleration = PyFloat 0\<rparr>"
    and "time s = PyFloat (real j / 2 ^ 53)" and "j \<le> 2 ^ 53"
  obtains s' where "loop_body (binary64 libm nplib) NoPotential (1 / 2 ^ 53) s = Inr s'"
    and "particle s' = particle s"
    and "time s' = PyFloat (real (min (Suc j) (2 ^ 53)) / 2 ^ 53)"
proof -
  let ?t = "PyFloat (real (min (Suc j) (2 ^ 53)) / 2 ^ 53)"
  let ?s' = "\<lparr>particle = particle s, time = ?t, times_list = times_list s @ [?t],
      positions = positions s @ [PyFloat 0], velocities = velocities s @ [PyFloat 0],
      ke = ke s @ [PyFloat 0], pe = pe s @ [PyFloat 0], total_e = total_e s @ [PyFloat 0]\<rparr>"
  have "loop_body (binary64 libm nplib) NoPotential (1 / 2 ^ 53) s = Inr ?s'"
    apply (simp only: loop_body_def assms(1,2) rest_verlet and_then_simps
        grid_time_step [OF assms(3)] rest_kinetic_energy potential_call.simps
        rest_total_energy)
    apply simp
    done
  then show thesis
    by (rule that) simp_all
qed

lemma rest_while_loop_diverges:
  fixes j :: nat
  assumes "particle s =
      \<lparr>position = PyFloat 0, velocity = PyFloat 0, mass = PyFloat 1, acceleration = PyFloat 0\<rparr>"
    and "time s = PyFloat (real j / 2 ^ 53)" and "j \<le> 2 ^ 53"
  shows "while_loop (binary64 libm nplib) NoPotential 2 (1 / 2 ^ 53) s = None"
proof (rule ccontr)
  let ?p = "\<lparr>position = PyFloat 0, velocity = PyFloat 0, mass = PyFloat 1,
      acceleration = PyFloat 0\<rparr>"
  assume "while_loop (binary64 libm nplib) NoPotential 2 (1 / 2 ^ 53) s \<noteq> None"
  then obtain r where run: "while_loop (binary64 libm nplib) NoPotential 2 (1 / 2 ^ 53) s = Some r"
    by blast
  define Q where "Q = (\<lambda>ar' pot' duration' dt' (a :: locals) (r :: stop + locals).
     ar' = binary64 libm nplib \<longrightarrow> pot' = NoPotential \<longrightarrow> duration' = (2::real)
       \<longrightarrow> dt' = (1 / 2 ^ 53 :: real) \<longrightarrow> particle a = ?p
       \<longrightarrow> (\<exists>j::nat. j \<le> 2 ^ 53 \<and> time a = PyFloat (real j / 2 ^ 53)) \<longrightarrow> False)"
  have "Q (binary64 libm nplib) NoPotential 2 (1 / 2 ^ 53) s r"
  proof (rule while_loop.raw_induct [where P = Q, OF _ run])
    fix f :: "arith \<Rightarrow> Potential \<Rightarrow> real \<Rightarrow> real \<Rightarrow> locals \<Rightarrow> (stop + locals) option"
    fix ar' pot' duration' dt' a r
    assume ih: "\<And>pot duration dt s b y. f pot duration dt s b = Some y \<Longrightarrow> Q pot duration dt s b y"
      and body: "(if val (time a) < duration' then
            (case loop_body ar' pot' dt' a of Inl e \<Rightarrow> Some (Inl e)
             | Inr s' \<Rightarrow> f ar' pot' duration' dt' s')
          else Some (Inr a)) = Some r"
    show "Q ar' pot' duration' dt' a r"
      unfolding Q_def
    proof (intro impI)
      assume h: "ar' = binary64 libm nplib" "pot' = NoPotential" "duration' = 2"
        "dt' = 1 / 2 ^ 53" "particle a = ?p"
        and "\<exists>j::nat. j \<le> 2 ^ 53 \<and> time a = PyFloat (real j / 2 ^ 53)"
      then obtain j :: nat where j: "j \<le> 2 ^ 53" "time a = PyFloat (real j / 2 ^ 53)"
        by blast
      have "real j \<le> real (2 ^ 53)"
        using j(1) by (simp only: of_nat_le_iff)
      then have lt: "val (time a) < duration'"
        by (simp add: j(2) h(3) field_simps)
      from rest_loop_body [OF h(5) j(2) j(1), of libm nplib] obtain b
        where b: "loop_body (binary64 libm nplib) NoPotential (1 / 2 ^ 53) a = Inr b"
          "particle b = particle a"
          "time b = PyFloat (real (min (Suc j) (2 ^ 53)) / 2 ^ 53)"
        by blast
      from body lt b(1) h have "f ar' pot' duration' dt' b = Some r"
        by simp
      then have qb: "Q ar' pot' duration' dt' b r" by (rule ih)
      have ex: "\<exists>j::nat. j \<le> 2 ^ 53 \<and> time b = PyFloat (real j / 2 ^ 53)"
        using b(3) by (intro exI [of _ "min (Suc j) (2 ^ 53)"] conjI) simp_all
      have pb: "particle b = ?p"
        using b(2) h(5) by simp
      show False
        using qb [unfolded Q_def, rule_format, OF h(1) h(2) h(3) h(4) pb ex] .
    qed
  qed
  then have q: "Q (binary64 libm nplib) NoPotential 2 (1 / 2 ^ 53) s r" .
  have ex: "\<exists>j::nat. j \<le> 2 ^ 53 \<and> time s = PyFloat (real j / 2 ^ 53)"
    using assms(2,3) by blast
  show False
    using q [unfolded Q_def, rule_format, OF refl refl refl refl assms(1) ex] .
qed

section \<open>A run on binary64 with a step that is not positive\<close>

text \<open>The rounding keeps the sign: a sum that is not positive is not positive once rounded,
  so with \<open>dt \<le> 0\<close> the time never leaves 0 upwards.\<close>

lemma round_even_nonneg: "0 \<le> q \<Longrightarrow> 0 \<le> round_even q"
  by (simp add: round_even_def Let_def)

lemma binary64_round_nonpos:
  assumes "binary64_round x = Some r" and "x \<le> 0"
  shows "r \<le> 0"
proof (cases "x = 0")
  case True
  with assms show ?thesis by (simp add: binary64_round_def)
next
  case False
  define u :: real where "u = 2 powi (max (exponent2 \<bar>x\<bar>) (- 1022) - 52)"
  have u: "0 < u"
    by (simp add: u_def)
  have "0 \<le> round_even (\<bar>x\<bar> / u)"
    using u by (intro round_even_nonneg) simp
  then have "0 \<le> real_of_int (round_even (\<bar>x\<bar> / u)) * u"
    using u by simp
  moreover have "r = sgn x * (real_of_int (round_even (\<bar>x\<bar> / u)) * u)"
    using assms(1) False by (simp add: binary64_round_def Let_def u_def split: if_splits)
  moreover have "sgn x = - 1"
    using False assms(2) by simp
  ultimately show ?thesis by simp
qed

lemma binary64_time_nonpos:
  assumes "fadd (binary64 libm nplib) t (PyFloat dt) = Inr t'" and "val t \<le> 0" and "dt \<le> 0"
  shows "val t' \<le> 0"
proof -
  from assms(1) obtain r where r: "binary64_round (val t + dt) = Some r" and t': "val t' = r"
    by (auto simp: fadd_def rounded_def binary64_def split: option.splits)
  show ?thesis
    using binary64_round_nonpos [OF r] assms(2,3) t' by simp
qed

lemma binary64_nonpositive_step_no_return:
  assumes "dt \<le> 0" and "0 < duration"
  shows "simulate_particle (binary64 libm nplib) p pot duration dt \<noteq> Some (Inr r)"
proof
  assume a: "simulate_particle (binary64 libm nplib) p pot duration dt = Some (Inr r)"
  obtain p' ts xs vs en where r: "r = (p', ts, xs, vs, en)"
    by (cases r) auto
  from a r obtain s0 s where s0: "initial_locals (binary64 libm nplib) p pot = Inr s0"
    and s: "while_loop (binary64 libm nplib) pot duration dt s0 = Some (Inr s)"
    using simulate_particle_returned [of "binary64 libm nplib" p pot duration dt p' ts xs vs en]
    by blast
  have "val (time s) \<le> 0 \<and> \<not> val (time s) < duration"
  proof (rule while_loop_invariant [OF s, where I = "\<lambda>a. val (time a) \<le> 0"])
    show "val (time s0) \<le> 0"
      using initial_locals_Inr(2) [OF s0] by simp
  next
    fix a b
    assume "val (time a) \<le> 0" and "loop_body (binary64 libm nplib) pot dt a = Inr b"
    then show "val (time b) \<le> 0"
      using binary64_time_nonpos [OF loop_body_Inr(2)] assms(1) by blast
  qed
  with assms(2) show False by simp
qed

section \<open>Overflow of a power on binary64\<close>

lemma binary64_round_finite:
  assumes "binary64_round x = Some r"
  shows "\<bar>r\<bar> < 2 ^ 1024"
proof (cases "x = 0")
  case True
  with assms show ?thesis by (simp add: binary64_round_def)
next
  case False
  define u :: real where "u = 2 powi (max (exponent2 \<bar>x\<bar>) (- 1022) - 52)"
  define R :: real where "R = real_of_int (round_even (\<bar>x\<bar> / u)) * u"
  have u: "0 < u"
    by (simp add: u_def)
  have "0 \<le> round_even (\<bar>x\<bar> / u)"
    using u by (intro round_even_nonneg) simp
  then have R0: "0 \<le> R"
    using u by (simp add: R_def)
  from assms False have "\<not> 2 ^ 1024 \<le> R" and r: "r = sgn x * R"
    by (simp_all add: binary64_round_def Let_def u_def R_def split: if_splits)
  moreover have "\<bar>sgn x * R\<bar> = R"
    using False R0 by (simp add: abs_mult)
  ultimately show ?thesis by simp
qed

lemma binary64_pow_overflow:
  assumes "2 ^ 1024 \<le> \<bar>x ^ n\<bar>"
  shows "binary64_pow libm x n = None"
proof -
  have "binary64_round (x ^ n) \<noteq> Some (x ^ n)"
    using binary64_round_finite [of "x ^ n" "x ^ n"] assms by auto
  with assms show ?thesis
    by (simp add: binary64_pow_def)
qed

text \<open>The square of a Python float of magnitude \<open>2 ^ 512\<close> or more raises \<open>OverflowError\<close>.\<close>

lemma kinetic_energy_overflow:
  assumes c: "fmul (binary64 libm nplib) (PyFloat (1 / 2)) (mass p) = Inr c"
    and py: "\<not> numpy (velocity p)" and big: "2 ^ 512 \<le> \<bar>val (velocity p)\<bar>"
  shows "kinetic_energy (binary64 libm nplib) p = Inl (Raised OverflowError)"
proof -
  have "(2 ^ 512) ^ 2 \<le> \<bar>val (velocity p)\<bar> ^ 2"
    using big by (intro power_mono) simp_all
  then have "(2::real) ^ 1024 \<le> \<bar>val (velocity p) ^ 2\<bar>"
    by (simp add: power_abs)
  then have "binary64_pow libm (val (velocity p)) 2 = None"
    by (rule binary64_pow_overflow)
  then have "fpow (binary64 libm nplib) (velocity p) 2 = Inl (Raised OverflowError)"
    using py by (simp add: fpow_def binary64_def)
  with c show ?thesis
    by (simp add: kinetic_energy_def)
qed

section \<open>The harmonic field: a conserved modified energy\<close>

text \<open>
  One iteration in the harmonic field maps \<open>(x, v)\<close> to \<open>(x', v')\<close> below; it conserves
  \<open>m v\<^sup>2 + k (1 - k h\<^sup>2 / (4 m)) (x - c)\<^sup>2\<close>, twice a modified energy.
\<close>

lemma harmonic_modified_energy_step:
  fixes m k h c x v :: real
  assumes m: "m \<noteq> 0"
    and x': "x' = x + (v + (- k * (x - c) / m) * (h / 2)) * h"
    and v': "v' = (v + (- k * (x - c) / m) * (h / 2)) + (- k * (x' - c) / m) * (h / 2)"
  shows "m * v'\<^sup>2 + k * (1 - k * h\<^sup>2 / (4 * m)) * (x' - c)\<^sup>2 =
         m * v\<^sup>2 + k * (1 - k * h\<^sup>2 / (4 * m)) * (x - c)\<^sup>2"
proof -
  define d where "d = x - c"
  define w where "w = k / m"
  have k: "k = w * m" using m by (simp add: w_def)
  have dx: "x' - c = d * (1 - w * h\<^sup>2 / 2) + h * v"
    using m by (simp add: x' d_def w_def field_simps power2_eq_square)
  have dv: "v' = v * (1 - w * h\<^sup>2 / 2) - h * w * d * (1 - w * h\<^sup>2 / 4)"
    using m unfolding v' dx by (simp add: d_def w_def field_simps power2_eq_square)
  have b: "k * h\<^sup>2 / (4 * m) = w * h\<^sup>2 / 4"
    by (simp add: w_def)
  have "v'\<^sup>2 + w * (1 - w * h\<^sup>2 / 4) * (x' - c)\<^sup>2 = v\<^sup>2 + w * (1 - w * h\<^sup>2 / 4) * d\<^sup>2"
    unfolding dx dv by (simp add: power2_eq_square field_simps)
  then have "m * (v'\<^sup>2 + w * (1 - w * h\<^sup>2 / 4) * (x' - c)\<^sup>2) =
      m * (v\<^sup>2 + w * (1 - w * h\<^sup>2 / 4) * d\<^sup>2)"
    by simp
  then show ?thesis
    unfolding b k d_def by (simp add: algebra_simps)
qed

lemma force_exact_harmonic:
  "force exact (HarmonicPotential k c) x = Inr f \<Longrightarrow> val f = - k * (val x - c)"
  by (auto simp: exact_simps)

text \<open>Twice the modified energy of the harmonic field is the same at every sample.\<close>

lemma harmonic_modified_energy:
  assumes init: "initial_locals exact p (HarmonicPotential k c) = Inr s0"
    and run: "while_loop exact (HarmonicPotential k c) duration dt s0 = Some (Inr s)"
  shows "i < length (times_list s) \<Longrightarrow>
      val (mass p) * (val (velocities s ! i))\<^sup>2
        + k * (1 - k * dt\<^sup>2 / (4 * val (mass p))) * (val (positions s ! i) - c)\<^sup>2 =
      val (mass p) * (val (velocity p))\<^sup>2
        + k * (1 - k * dt\<^sup>2 / (4 * val (mass p))) * (val (position p) - c)\<^sup>2"
proof (induction i)
  case 0
  show ?case using while_loop_shape(8,9) [OF init run] by simp
next
  case (Suc i)
  obtain f0 f1 where g: "force exact (HarmonicPotential k c) (positions s ! i) = Inr f0"
      "force exact (HarmonicPotential k c) (positions s ! Suc i) = Inr f1"
    and st: "val (positions s ! Suc i) =
        val (positions s ! i) + (val (velocities s ! i) + val f0 / val (mass p) * (dt / 2)) * dt"
      "val (velocities s ! Suc i) =
        (val (velocities s ! i) + val f0 / val (mass p) * (dt / 2))
          + val f1 / val (mass p) * (dt / 2)"
      "val (mass p) \<noteq> 0"
    using while_loop_exact_steps [OF init run Suc.prems] by metis
  note f = force_exact_harmonic [OF g(1)] force_exact_harmonic [OF g(2)]
  have "val (mass p) * (val (velocities s ! Suc i))\<^sup>2
        + k * (1 - k * dt\<^sup>2 / (4 * val (mass p))) * (val (positions s ! Suc i) - c)\<^sup>2 =
      val (mass p) * (val (velocities s ! i))\<^sup>2
        + k * (1 - k * dt\<^sup>2 / (4 * val (mass p))) * (val (positions s ! i) - c)\<^sup>2"
    by (rule harmonic_modified_energy_step [OF st(3)]) (use st(1,2) f in simp_all)
  with Suc show ?case by simp
qed

lemma harmonic_total_energy:
  assumes init: "initial_locals exact p (HarmonicPotential k c) = Inr s0"
    and run: "while_loop exact (HarmonicPotential k c) duration dt s0 = Some (Inr s)"
    and i: "i < length (times_list s)"
  shows "2 * val (total_e s ! i) =
      val (mass p) * (val (velocities s ! i))\<^sup>2 + k * (val (positions s ! i) - c)\<^sup>2"
proof -
  obtain e where e: "potential_call exact (HarmonicPotential k c) (positions s ! i) = Inr e"
    "val (pe s ! i) = val e"
    "val (ke s ! i) = 1 / 2 * val (mass p) * (val (velocities s ! i))\<^sup>2"
    "val (total_e s ! i) = val (ke s ! i) + val (pe s ! i)"
    using while_loop_exact_energies [OF init run i] by metis
  from e(1) have "val e = 1 / 2 * k * (val (positions s ! i) - c)\<^sup>2"
    by (auto simp: exact_simps)
  with e show ?thesis by simp
qed

text \<open>The arithmetic of the bound: \<open>e\<close> is \<open>k * dt\<^sup>2 / (4 * m)\<close>, \<open>A\<close> and \<open>B\<close> are
  \<open>k * (x - c)\<^sup>2\<close> at a sample and at the start, \<open>K\<close> and \<open>K0\<close> the doubled kinetic energies,
  \<open>E\<close> and \<open>E0\<close> the total energies.\<close>

lemma energy_bound_arith:
  fixes e A B K K0 E E0 :: real
  assumes e: "0 < e" "101 * e < 1"
    and nn: "0 \<le> A" "0 \<le> B" "0 \<le> K" "0 \<le> K0"
    and J: "K + (1 - e) * A = K0 + (1 - e) * B"
    and E: "2 * E = K + A" and E0: "2 * E0 = K0 + B"
  shows "\<bar>E - E0\<bar> \<le> E0 / 100" and "0 < E0 \<Longrightarrow> \<bar>E - E0\<bar> < E0 / 100"
proof -
  define a where "a = e * A"
  define b where "b = e * B"
  have J': "K + A - a = K0 + B - b"
    using J by (simp add: a_def b_def algebra_simps)
  have a0: "0 \<le> a" and b0: "0 \<le> b"
    using e nn by (simp_all add: a_def b_def)
  have "(100 * e) * A \<le> (1 - e) * A"
    using e nn(1) by (intro mult_right_mono) simp_all
  then have a1: "101 * a \<le> A"
    by (simp add: a_def algebra_simps)
  have "(100 * e) * B \<le> (1 - e) * B"
    using e nn(2) by (intro mult_right_mono) simp_all
  then have b1: "101 * b \<le> B"
    by (simp add: b_def algebra_simps)
  have d: "2 * (E - E0) = a - b"
    using J' E E0 by argo
  have "100 * a \<le> 2 * E0" and "100 * b \<le> 2 * E0"
    using J' E0 a0 b0 a1 b1 nn by argo+
  then have "100 * (E - E0) \<le> E0" and "100 * (E0 - E) \<le> E0"
    using d a0 b0 by argo+
  then show "\<bar>E - E0\<bar> \<le> E0 / 100"
    by argo
  show "\<bar>E - E0\<bar> < E0 / 100" if pos: "0 < E0"
  proof -
    have sa: "A = 0 \<or> 101 * a < A"
    proof (cases "A = 0")
      case False
      with nn(1) have "0 < A" by simp
      then have "(100 * e) * A < (1 - e) * A"
        using e by (intro mult_strict_right_mono) simp_all
      then show ?thesis by (simp add: a_def algebra_simps)
    qed simp
    have sb: "B = 0 \<or> 101 * b < B"
    proof (cases "B = 0")
      case False
      with nn(2) have "0 < B" by simp
      then have "(100 * e) * B < (1 - e) * B"
        using e by (intro mult_strict_right_mono) simp_all
      then show ?thesis by (simp add: b_def algebra_simps)
    qed simp
    have za: "A = 0 \<Longrightarrow> a = 0" and zb: "B = 0 \<Longrightarrow> b = 0"
      by (simp_all add: a_def b_def)
    have "100 * a < 2 * E0"
      using sa za J' E0 a0 b0 a1 b1 nn pos by argo
    moreover have "100 * b < 2 * E0"
      using sb zb J' E0 a0 b0 a1 b1 nn pos by argo
    ultimately have "100 * (E - E0) < E0" and "100 * (E0 - E) < E0"
      using d a0 b0 by argo+
    then show ?thesis
      by argo
  qed
qed

lemma harmonic_energy_samples:
  assumes init: "initial_locals exact p (HarmonicPotential k c) = Inr s0"
    and run: "while_loop exact (HarmonicPotential k c) duration dt s0 = Some (Inr s)"
    and k: "0 < k" and m: "0 < val (mass p)" and dt: "0 < dt"
    and small: "101 * k * dt\<^sup>2 < 4 * val (mass p)"
    and i: "i < length (times_list s)"
  shows "\<bar>val (total_e s ! i) - val (total_e s ! 0)\<bar> \<le> val (total_e s ! 0) / 100"
    and "0 < val (total_e s ! 0) \<Longrightarrow>
      \<bar>val (total_e s ! i) - val (total_e s ! 0)\<bar> < val (total_e s ! 0) / 100"
proof -
  note sh = while_loop_shape [OF init run]
  from sh(1) have z: "0 < length (times_list s)" by simp
  define e where "e = k * dt\<^sup>2 / (4 * val (mass p))"
  have e: "0 < e" "101 * e < 1"
    using k m dt small by (simp_all add: e_def field_simps)
  have J: "val (mass p) * (val (velocities s ! i))\<^sup>2
        + (1 - e) * (k * (val (positions s ! i) - c)\<^sup>2) =
      val (mass p) * (val (velocities s ! 0))\<^sup>2
        + (1 - e) * (k * (val (positions s ! 0) - c)\<^sup>2)"
    using harmonic_modified_energy [OF init run i] harmonic_modified_energy [OF init run z]
    by (simp add: e_def algebra_simps)
  have nn: "0 \<le> k * (val (positions s ! i) - c)\<^sup>2" "0 \<le> k * (val (positions s ! 0) - c)\<^sup>2"
    "0 \<le> val (mass p) * (val (velocities s ! i))\<^sup>2"
    "0 \<le> val (mass p) * (val (velocities s ! 0))\<^sup>2"
    using k m by simp_all
  note b = energy_bound_arith [OF e nn J harmonic_total_energy [OF init run i]
      harmonic_total_energy [OF init run z]]
  show "\<bar>val (total_e s ! i) - val (total_e s ! 0)\<bar> \<le> val (total_e s ! 0) / 100"
    by (rule b(1))
  show "\<bar>val (total_e s ! i) - val (total_e s ! 0)\<bar> < val (total_e s ! 0) / 100"
    if "0 < val (total_e s ! 0)"
    using that by (rule b(2))
qed

text \<open>
  The energy of the harmonic oscillator. For the harmonic field with \<open>k > 0\<close>, a particle
  of positive mass \<open>m\<close> and a step \<open>dt > 0\<close> with \<open>101 k dt\<^sup>2 < 4 m\<close>, in exact arithmetic
  and for every duration: the run returns, and every recorded total energy, the last one
  included, deviates from the initial total energy by at most 1 percent of it, and by
  strictly less when the initial total energy is positive. The bound does not depend on
  the duration. At rest at the minimum the initial total energy is 0 and the deviation
  is 0, not less.
\<close>

lemma harmonic_energy_bound:
  assumes "0 < k" and "0 < val (mass p)" and "0 < dt" and "101 * k * dt\<^sup>2 < 4 * val (mass p)"
  shows "\<exists>p' ts xs vs en.
      simulate_particle exact p (HarmonicPotential k c) duration dt
        = Some (Inr (p', ts, xs, vs, en))
    \<and> total en \<noteq> []
    \<and> total en ! 0 = val (mass p) * (val (velocity p))\<^sup>2 / 2 + k * (val (position p) - c)\<^sup>2 / 2
    \<and> (\<forall>i < length (total en).
          \<bar>total en ! i - total en ! 0\<bar> \<le> total en ! 0 / 100
        \<and> (0 < total en ! 0 \<longrightarrow> \<bar>total en ! i - total en ! 0\<bar> < total en ! 0 / 100))
    \<and> \<bar>last (total en) - total en ! 0\<bar> \<le> total en ! 0 / 100
    \<and> (0 < total en ! 0 \<longrightarrow> \<bar>last (total en) - total en ! 0\<bar> < total en ! 0 / 100)"
proof -
  let ?pot = "HarmonicPotential k c"
  obtain s0 where s0: "initial_locals exact p ?pot = Inr s0"
    by (rule initial_locals_exact)
  from assms obtain r where "simulate_particle exact p ?pot duration dt = Some (Inr r)"
    using simulate_particle_exact_returns [of duration dt p ?pot] by auto
  then obtain s where run: "while_loop exact ?pot duration dt s0 = Some (Inr s)"
    and sim: "simulate_particle exact p ?pot duration dt = Some (Inr (returned s))"
    using s0 by (auto simp: simulate_particle_def split: option.splits sum.splits)
  note sh = while_loop_shape [OF s0 run]
  have ne: "total_e s \<noteq> []"
    using sh(1,6) by auto
  have z: "0 < length (times_list s)"
    using sh(1) by simp
  have nth: "np_array (total_e s) ! i = val (total_e s ! i)" if "i < length (total_e s)" for i
    using that by (simp add: np_array_def)
  have bound: "\<bar>np_array (total_e s) ! i - np_array (total_e s) ! 0\<bar>
        \<le> np_array (total_e s) ! 0 / 100
      \<and> (0 < np_array (total_e s) ! 0 \<longrightarrow>
          \<bar>np_array (total_e s) ! i - np_array (total_e s) ! 0\<bar> < np_array (total_e s) ! 0 / 100)"
    if "i < length (total_e s)" for i
    using harmonic_energy_samples [OF s0 run assms(1,2,3,4), of i] that sh(6) z
    by (simp add: nth)
  have lst: "last (np_array (total_e s)) = np_array (total_e s) ! (length (total_e s) - 1)"
    using ne by (simp add: last_conv_nth np_array_def)
  have "length (total_e s) - 1 < length (total_e s)"
    using ne by simp
  note bl = bound [OF this]
  have e0: "np_array (total_e s) ! 0 =
      val (mass p) * (val (velocity p))\<^sup>2 / 2 + k * (val (position p) - c)\<^sup>2 / 2"
    using harmonic_total_energy [OF s0 run z] sh(6,8,9) z by (simp add: nth)
  have len: "length (np_array (total_e s)) = length (total_e s)"
    by (simp add: np_array_def)
  have ne': "np_array (total_e s) \<noteq> []"
    using ne by (simp add: np_array_def)
  show ?thesis
    using sim ne' bound bl e0 unfolding lst [symmetric]
    by (simp add: returned_def len)
qed

text \<open>A run of two iterations in a harmonic field, used as the concrete input below.\<close>

lemma harmonic_run_example:
  "simulate_particle exact
       \<lparr>position = PyFloat 0, velocity = PyFloat 1, mass = PyFloat 2, acceleration = PyFloat 0\<rparr>
       (HarmonicPotential 4 0) 1 (1 / 2) =
     Some (Inr (\<lparr>position = PyFloat (3 / 4), velocity = PyFloat (1 / 8), mass = PyFloat 2,
           acceleration = PyFloat (- (3 / 2))\<rparr>,
       [0, 1 / 2, 1], [0, 1 / 2, 3 / 4], [1, 3 / 4, 1 / 8],
       \<lparr>kinetic = [1, 9 / 16, 1 / 64], potential = [0, 1 / 2, 9 / 8],
        total = [1, 17 / 16, 73 / 64]\<rparr>))"
  by (simp add: run_defs while_loop.simps exact_simps power2_eq_square)

section \<open>The force fields\<close>

text \<open>
  Claim C9. In exact arithmetic, for the harmonic potential (any \<open>k\<close>, any center \<open>c\<close>) and
  the quartic potential (any \<open>a\<close>, any center \<open>c\<close>) and every real \<open>d\<close>: the potential
  energy at \<open>c + d\<close> equals the potential energy at \<open>c - d\<close>, and the force at \<open>c + d\<close>
  is the negation of the force at \<open>c - d\<close>. The position is of either run-time type.
\<close>

theorem symmetry_harmonic_quartic:
  "(\<exists>e. potential_call exact (HarmonicPotential k c) (number_of np (c + d)) = Inr e
       \<and> potential_call exact (HarmonicPotential k c) (number_of np (c - d)) = Inr e)
   \<and> (\<exists>f. force exact (HarmonicPotential k c) (number_of np (c - d)) = Inr f
       \<and> force exact (HarmonicPotential k c) (number_of np (c + d)) = Inr (fneg f))
   \<and> (\<exists>e. potential_call exact (QuarticPotential a c) (number_of np (c + d)) = Inr e
       \<and> potential_call exact (QuarticPotential a c) (number_of np (c - d)) = Inr e)
   \<and> (\<exists>f. force exact (QuarticPotential a c) (number_of np (c - d)) = Inr f
       \<and> force exact (QuarticPotential a c) (number_of np (c + d)) = Inr (fneg f))"
  by (cases np) (simp_all add: exact_simps)

text \<open>
  Claim C6, as stated, asks the force of the box to be strictly positive immediately
  outside the boundary. Right of the box the force is negative: for width 2, center 0 and
  stiffness 1000 the right wall is at 1, and at \<open>x = 1.001\<close> the force is \<open>-1\<close>.
\<close>

theorem box_force_negative_counterexample:
  "BoxPotential_init exact 2 0 1000 = Inr (BoxPotential 2 0 1000 1)
   \<and> force exact (BoxPotential 2 0 1000 1) (PyFloat (1001 / 1000)) = Inr (Float64 (- 1))"
  by (simp add: BoxPotential_init_def exact_simps)

text \<open>
  Claim C6, amended. For the box potential of width \<open>w > 0\<close>, center \<open>c\<close> and stiffness
  \<open>s > 0\<close>, in exact arithmetic: force and potential energy are exactly 0 at every \<open>x\<close>
  with \<open>|x - c| \<le> w / 2\<close>, the two boundary points included; outside, the potential energy
  is strictly positive, and the force is a restoring force, strictly negative right of the
  box (\<open>- s\<close> times the overshoot) and strictly positive left of it (\<open>s\<close> times the
  overshoot).
\<close>

theorem box_boundary:
  assumes "0 < w" and "0 < s"
  shows "BoxPotential_init exact w c s = Inr (BoxPotential w c s (w / 2))
       \<and> (\<bar>val x - c\<bar> \<le> w / 2 \<longrightarrow>
            force exact (BoxPotential w c s (w / 2)) x = Inr (PyFloat 0)
          \<and> potential_call exact (BoxPotential w c s (w / 2)) x = Inr (PyFloat 0))
       \<and> (w / 2 < \<bar>val x - c\<bar> \<longrightarrow>
            potential_call exact (BoxPotential w c s (w / 2)) x =
              Inr (number_of (numpy x) (1 / 2 * s * (\<bar>val x - c\<bar> - w / 2)\<^sup>2))
          \<and> 0 < 1 / 2 * s * (\<bar>val x - c\<bar> - w / 2)\<^sup>2)
       \<and> (c + w / 2 < val x \<longrightarrow>
            force exact (BoxPotential w c s (w / 2)) x =
              Inr (Float64 (- (s * (val x - (c + w / 2)))))
          \<and> - (s * (val x - (c + w / 2))) < 0)
       \<and> (val x < c - w / 2 \<longrightarrow>
            force exact (BoxPotential w c s (w / 2)) x =
              Inr (Float64 (s * (c - w / 2 - val x)))
          \<and> 0 < s * (c - w / 2 - val x))"
proof (intro conjI impI)
  show "BoxPotential_init exact w c s = Inr (BoxPotential w c s (w / 2))"
    by (simp add: BoxPotential_init_def exact_simps)
next
  assume "\<bar>val x - c\<bar> \<le> w / 2"
  then show "force exact (BoxPotential w c s (w / 2)) x = Inr (PyFloat 0)"
    and "potential_call exact (BoxPotential w c s (w / 2)) x = Inr (PyFloat 0)"
    by (simp_all add: exact_simps)
next
  assume h: "w / 2 < \<bar>val x - c\<bar>"
  then show "potential_call exact (BoxPotential w c s (w / 2)) x =
      Inr (number_of (numpy x) (1 / 2 * s * (\<bar>val x - c\<bar> - w / 2)\<^sup>2))"
    by (simp add: exact_simps Let_def)
  show "0 < 1 / 2 * s * (\<bar>val x - c\<bar> - w / 2)\<^sup>2"
    using h assms by simp
next
  assume h: "c + w / 2 < val x"
  then have "\<not> \<bar>val x - c\<bar> \<le> w / 2" "sgn (val x - c) = 1" "\<bar>val x - c\<bar> = val x - c"
    using assms by (simp_all add: abs_if)
  then show "force exact (BoxPotential w c s (w / 2)) x =
      Inr (Float64 (- (s * (val x - (c + w / 2)))))"
    by (simp add: exact_simps Let_def algebra_simps)
  show "- (s * (val x - (c + w / 2))) < 0"
    using h assms by simp
next
  assume h: "val x < c - w / 2"
  then have "\<not> \<bar>val x - c\<bar> \<le> w / 2" "sgn (val x - c) = - 1" "\<bar>val x - c\<bar> = c - val x"
    using assms by (simp_all add: abs_if)
  then show "force exact (BoxPotential w c s (w / 2)) x =
      Inr (Float64 (s * (c - w / 2 - val x)))"
    by (simp add: exact_simps Let_def algebra_simps)
  show "0 < s * (c - w / 2 - val x)"
    using h assms by simp
qed

theorem box_boundary_witness:
  "(0::real) < 2 \<and> (0::real) < 1000
   \<and> BoxPotential_init exact 2 0 1000 = Inr (BoxPotential 2 0 1000 1)
   \<and> force exact (BoxPotential 2 0 1000 1) (PyFloat 1) = Inr (PyFloat 0)
   \<and> potential_call exact (BoxPotential 2 0 1000 1) (PyFloat (- 1)) = Inr (PyFloat 0)
   \<and> potential_call exact (BoxPotential 2 0 1000 1) (PyFloat (1001 / 1000)) =
       Inr (PyFloat (1 / 2000))
   \<and> force exact (BoxPotential 2 0 1000 1) (PyFloat (1001 / 1000)) = Inr (Float64 (- 1))
   \<and> force exact (BoxPotential 2 0 1000 1) (PyFloat (- 1001 / 1000)) = Inr (Float64 1)"
  using box_boundary [of 2 1000 0 "PyFloat 1"] box_boundary [of 2 1000 0 "PyFloat (- 1)"]
    box_boundary [of 2 1000 0 "PyFloat (1001 / 1000)"]
    box_boundary [of 2 1000 0 "PyFloat (- 1001 / 1000)"]
  by (simp add: power2_eq_square)

section \<open>Runs of \<open>simulate_particle\<close>\<close>

text \<open>
  Claim C7, as stated, has every run with \<open>duration \<le> 0\<close> return the initial sample. The
  initial kinetic energy is computed before the loop, and on binary64 floats
  \<open>velocity**2\<close> overflows for a velocity of \<open>2 ^ 512\<close>: \<open>OverflowError\<close> is raised and
  nothing is returned, whatever the power function of the C library does elsewhere.
\<close>

theorem overflow_counterexample:
  "\<forall>libm nplib.
     simulate_particle (binary64 libm nplib)
       \<lparr>position = PyFloat 0, velocity = PyFloat (2 ^ 512), mass = PyFloat 1,
          acceleration = PyFloat 0\<rparr>
       NoPotential 0 (1 / 128) = Some (Inl (Raised OverflowError))"
  by (simp add: simulate_particle_def initial_locals_def kinetic_energy_def binary64_defs
      Let_def)

text \<open>
  Claim C7, amended. For every particle, potential and \<open>dt\<close>, a run with \<open>duration \<le> 0\<close>
  takes no step. In every arithmetic, when the three initial energies are computed it
  returns the initial sample alone (each sequence has one entry: the time 0, the
  particle's position and velocity, and those energies) and leaves the particle
  unchanged; when their computation raises an exception, the call raises it and returns
  nothing (and an overflow to an infinity that raises nothing is recorded as \<open>NonFinite\<close>).
  In exact arithmetic the energies are always computed. On binary64, a velocity that is a
  Python float of magnitude \<open>2 ^ 512\<close> or more raises \<open>OverflowError\<close>, once half the mass
  has been computed.
\<close>

theorem duration_nonpositive_initial_sample:
  assumes "duration \<le> 0"
  shows "(\<forall>k u t. kinetic_energy ar p = Inr k \<and> potential_call ar pot (position p) = Inr u
            \<and> fadd ar k u = Inr t \<longrightarrow>
          simulate_particle ar p pot duration dt =
            Some (Inr (p, [0], [val (position p)], [val (velocity p)],
              \<lparr>kinetic = [val k], potential = [val u], total = [val t]\<rparr>)))
       \<and> (\<forall>e. initial_locals ar p pot = Inl e \<longrightarrow>
          simulate_particle ar p pot duration dt = Some (Inl e))
       \<and> (\<exists>u. potential_call exact pot (position p) = Inr u
          \<and> simulate_particle exact p pot duration dt =
            Some (Inr (p, [0], [val (position p)], [val (velocity p)],
              \<lparr>kinetic = [1 / 2 * val (mass p) * (val (velocity p))\<^sup>2],
               potential = [val u],
               total = [1 / 2 * val (mass p) * (val (velocity p))\<^sup>2 + val u]\<rparr>)))
       \<and> (\<forall>libm nplib c.
            fmul (binary64 libm nplib) (PyFloat (1 / 2)) (mass p) = Inr c
            \<and> \<not> numpy (velocity p) \<and> 2 ^ 512 \<le> \<bar>val (velocity p)\<bar> \<longrightarrow>
          simulate_particle (binary64 libm nplib) p pot duration dt =
            Some (Inl (Raised OverflowError)))"
proof -
  have run: "simulate_particle ar p pot duration dt =
      Some (Inr (p, [0], [val (position p)], [val (velocity p)],
        \<lparr>kinetic = [val k], potential = [val u], total = [val t]\<rparr>))"
    if "kinetic_energy ar p = Inr k" "potential_call ar pot (position p) = Inr u"
      "fadd ar k u = Inr t" for ar k u t
  proof -
    let ?s0 = "\<lparr>particle = p, time = PyFloat 0, times_list = [PyFloat 0],
          positions = [position p], velocities = [velocity p],
          ke = [k], pe = [u], total_e = [t]\<rparr>"
    have "initial_locals ar p pot = Inr ?s0"
      using that by (simp add: initial_locals_def)
    moreover have "while_loop ar pot duration dt ?s0 = Some (Inr ?s0)"
      using assms by (simp add: while_loop_stop)
    ultimately show ?thesis
      by (simp add: simulate_particle_def returned_def np_array_def)
  qed
  obtain u where u: "potential_call exact pot (position p) = Inr u"
    using potential_call_exact_total by blast
  have ex: "simulate_particle exact p pot duration dt =
      Some (Inr (p, [0], [val (position p)], [val (velocity p)],
        \<lparr>kinetic = [1 / 2 * val (mass p) * (val (velocity p))\<^sup>2],
         potential = [val u],
         total = [1 / 2 * val (mass p) * (val (velocity p))\<^sup>2 + val u]\<rparr>))"
    using run [OF kinetic_energy_exact u, of "number_of
        ((numpy (mass p) \<or> numpy (velocity p)) \<or> numpy u)
        (1 / 2 * val (mass p) * (val (velocity p))\<^sup>2 + val u)"]
    by (simp add: exact_simps)
  have ov: "simulate_particle (binary64 libm nplib) p pot duration dt =
      Some (Inl (Raised OverflowError))"
    if "fmul (binary64 libm nplib) (PyFloat (1 / 2)) (mass p) = Inr c"
      "\<not> numpy (velocity p)" "2 ^ 512 \<le> \<bar>val (velocity p)\<bar>" for libm nplib c
    using kinetic_energy_overflow [OF that]
    by (simp add: simulate_particle_def initial_locals_def)
  have fail: "simulate_particle ar p pot duration dt = Some (Inl e)"
    if "initial_locals ar p pot = Inl e" for e
    using that by (simp add: simulate_particle_def)
  show ?thesis
  proof (intro conjI allI impI)
    fix k u t
    assume "kinetic_energy ar p = Inr k \<and> potential_call ar pot (position p) = Inr u
            \<and> fadd ar k u = Inr t"
    then show "simulate_particle ar p pot duration dt =
            Some (Inr (p, [0], [val (position p)], [val (velocity p)],
              \<lparr>kinetic = [val k], potential = [val u], total = [val t]\<rparr>))"
      using run by blast
  next
    fix e
    assume "initial_locals ar p pot = Inl e"
    then show "simulate_particle ar p pot duration dt = Some (Inl e)"
      by (rule fail)
  next
    show "\<exists>u. potential_call exact pot (position p) = Inr u
          \<and> simulate_particle exact p pot duration dt =
            Some (Inr (p, [0], [val (position p)], [val (velocity p)],
              \<lparr>kinetic = [1 / 2 * val (mass p) * (val (velocity p))\<^sup>2],
               potential = [val u],
               total = [1 / 2 * val (mass p) * (val (velocity p))\<^sup>2 + val u]\<rparr>))"
      using u ex by blast
  next
    fix libm nplib c
    assume "fmul (binary64 libm nplib) (PyFloat (1 / 2)) (mass p) = Inr c
            \<and> \<not> numpy (velocity p) \<and> 2 ^ 512 \<le> \<bar>val (velocity p)\<bar>"
    then show "simulate_particle (binary64 libm nplib) p pot duration dt =
            Some (Inl (Raised OverflowError))"
      using ov by blast
  qed
qed

theorem duration_nonpositive_initial_sample_witness:
  "(0::real) \<le> 0
   \<and> kinetic_energy exact
       \<lparr>position = PyFloat 1, velocity = PyFloat 2, mass = PyFloat 3, acceleration = PyFloat 0\<rparr>
       = Inr (PyFloat 6)
   \<and> potential_call exact (HarmonicPotential 1 0) (PyFloat 1) = Inr (PyFloat (1 / 2))
   \<and> fadd exact (PyFloat 6) (PyFloat (1 / 2)) = Inr (PyFloat (13 / 2))
   \<and> simulate_particle exact
       \<lparr>position = PyFloat 1, velocity = PyFloat 2, mass = PyFloat 3, acceleration = PyFloat 0\<rparr>
       (HarmonicPotential 1 0) 0 (1 / 100) =
     Some (Inr (\<lparr>position = PyFloat 1, velocity = PyFloat 2, mass = PyFloat 3,
           acceleration = PyFloat 0\<rparr>, [0], [1], [2],
       \<lparr>kinetic = [6], potential = [1 / 2], total = [13 / 2]\<rparr>))
   \<and> fmul (binary64 (\<lambda>x n. None) (\<lambda>x n. None)) (PyFloat (1 / 2)) (PyFloat 1)
       = Inr (PyFloat (1 / 2))
   \<and> (2::real) ^ 512 \<le> \<bar>- (2 ^ 600)\<bar>
   \<and> initial_locals (binary64 (\<lambda>x n. None) (\<lambda>x n. None))
       \<lparr>position = PyFloat 0, velocity = PyFloat (- (2 ^ 600)), mass = PyFloat 1,
          acceleration = PyFloat 0\<rparr>
       (HarmonicPotential 1 0) = Inl (Raised OverflowError)
   \<and> simulate_particle (binary64 (\<lambda>x n. None) (\<lambda>x n. None))
       \<lparr>position = PyFloat 0, velocity = PyFloat (- (2 ^ 600)), mass = PyFloat 1,
          acceleration = PyFloat 0\<rparr>
       (HarmonicPotential 1 0) 0 (1 / 128) = Some (Inl (Raised OverflowError))"
proof -
  let ?b = "binary64 (\<lambda>x n. None) (\<lambda>x n. None)"
  let ?q = "\<lparr>position = PyFloat 0, velocity = PyFloat (- (2 ^ 600)), mass = PyFloat 1,
          acceleration = PyFloat 0\<rparr>"
  have h: "fmul ?b (PyFloat (1 / 2)) (PyFloat 1) = Inr (PyFloat (1 / 2))"
    by (simp add: binary64_defs)
  have g: "(2::real) ^ 512 \<le> \<bar>- (2 ^ 600)\<bar>"
    by simp
  have a: "initial_locals ?b ?q (HarmonicPotential 1 0) = Inl (Raised OverflowError)"
    using kinetic_energy_overflow [of "\<lambda>x n. None" "\<lambda>x n. None" ?q "PyFloat (1 / 2)"] h g
    by (simp add: initial_locals_def)
  have b: "kinetic_energy exact
       \<lparr>position = PyFloat 1, velocity = PyFloat 2, mass = PyFloat 3, acceleration = PyFloat 0\<rparr>
       = Inr (PyFloat 6)"
    "potential_call exact (HarmonicPotential 1 0) (PyFloat 1) = Inr (PyFloat (1 / 2))"
    "fadd exact (PyFloat 6) (PyFloat (1 / 2)) = Inr (PyFloat (13 / 2))"
    by (simp_all add: kinetic_energy_def exact_simps power2_eq_square)
  have s1: "simulate_particle exact
       \<lparr>position = PyFloat 1, velocity = PyFloat 2, mass = PyFloat 3, acceleration = PyFloat 0\<rparr>
       (HarmonicPotential 1 0) 0 (1 / 100) =
     Some (Inr (\<lparr>position = PyFloat 1, velocity = PyFloat 2, mass = PyFloat 3,
           acceleration = PyFloat 0\<rparr>, [0], [1], [2],
       \<lparr>kinetic = [6], potential = [1 / 2], total = [13 / 2]\<rparr>))"
    using duration_nonpositive_initial_sample
      [of 0 exact "\<lparr>position = PyFloat 1, velocity = PyFloat 2, mass = PyFloat 3,
          acceleration = PyFloat 0\<rparr>" "HarmonicPotential 1 0" "1 / 100"] b
    by simp
  have s2: "simulate_particle ?b ?q (HarmonicPotential 1 0) 0 (1 / 128) =
      Some (Inl (Raised OverflowError))"
    using duration_nonpositive_initial_sample [of 0 ?b ?q "HarmonicPotential 1 0" "1 / 128"] a
    by simp
  show ?thesis
    using h g a b s1 s2 by simp
qed

text \<open>
  Claim C10. \<open>simulate_particle\<close> mutates the caller's particle in place: when it returns
  (in every arithmetic), the particle's position and velocity are the last entries of the
  returned positions and velocities, and its mass is the mass it had on entry. In exact
  arithmetic the run does return for every positive \<open>dt\<close> and nonzero mass.
\<close>

theorem particle_mutated_in_place:
  "(simulate_particle ar p pot duration dt = Some (Inr (p', ts, xs, vs, en)) \<longrightarrow>
      xs \<noteq> [] \<and> vs \<noteq> [] \<and> val (position p') = last xs \<and> val (velocity p') = last vs
      \<and> mass p' = mass p)
   \<and> (0 < dt \<and> val (mass p) \<noteq> 0 \<longrightarrow>
      (\<exists>r. simulate_particle exact p pot duration dt = Some (Inr r)))"
proof (intro conjI impI)
  assume "simulate_particle ar p pot duration dt = Some (Inr (p', ts, xs, vs, en))"
  then obtain s0 s where s0: "initial_locals ar p pot = Inr s0"
    and s: "while_loop ar pot duration dt s0 = Some (Inr s)"
    and r: "p' = particle s" "xs = np_array (positions s)" "vs = np_array (velocities s)"
    by (rule simulate_particle_returned)
  note sh = while_loop_shape [OF s0 s]
  from sh(1,2,3) have ne: "positions s \<noteq> []" "velocities s \<noteq> []"
    by auto
  then show "xs \<noteq> []" "vs \<noteq> []"
    unfolding r by (simp_all add: np_array_def)
  show "val (position p') = last xs" "val (velocity p') = last vs" "mass p' = mass p"
    using ne sh(11,12,13) unfolding r by (simp_all add: np_array_def last_map)
next
  assume "0 < dt \<and> val (mass p) \<noteq> 0"
  then show "\<exists>r. simulate_particle exact p pot duration dt = Some (Inr r)"
    using simulate_particle_exact_returns by blast
qed

theorem particle_mutated_in_place_witness:
  "simulate_particle exact
       \<lparr>position = PyFloat 0, velocity = PyFloat 1, mass = PyFloat 2, acceleration = PyFloat 0\<rparr>
       (HarmonicPotential 4 0) 1 (1 / 2) =
     Some (Inr (\<lparr>position = PyFloat (3 / 4), velocity = PyFloat (1 / 8), mass = PyFloat 2,
           acceleration = PyFloat (- (3 / 2))\<rparr>,
       [0, 1 / 2, 1], [0, 1 / 2, 3 / 4], [1, 3 / 4, 1 / 8],
       \<lparr>kinetic = [1, 9 / 16, 1 / 64], potential = [0, 1 / 2, 9 / 8],
        total = [1, 17 / 16, 73 / 64]\<rparr>))
   \<and> val (position \<lparr>position = PyFloat (3 / 4), velocity = PyFloat (1 / 8), mass = PyFloat 2,
           acceleration = PyFloat (- (3 / 2))\<rparr>) = last [0, 1 / 2, 3 / 4 :: real]
   \<and> val (velocity \<lparr>position = PyFloat (3 / 4), velocity = PyFloat (1 / 8), mass = PyFloat 2,
           acceleration = PyFloat (- (3 / 2))\<rparr>) = last [1, 3 / 4, 1 / 8 :: real]
   \<and> mass \<lparr>position = PyFloat (3 / 4), velocity = PyFloat (1 / 8), mass = PyFloat 2,
           acceleration = PyFloat (- (3 / 2))\<rparr> =
       mass \<lparr>position = PyFloat 0, velocity = PyFloat 1, mass = PyFloat 2,
           acceleration = PyFloat 0\<rparr>
   \<and> (0::real) < 1 / 2
   \<and> val (mass \<lparr>position = PyFloat 0, velocity = PyFloat 1, mass = PyFloat 2,
           acceleration = PyFloat 0\<rparr>) \<noteq> 0"
  using particle_mutated_in_place
    [of exact "\<lparr>position = PyFloat 0, velocity = PyFloat 1, mass = PyFloat 2,
           acceleration = PyFloat 0\<rparr>"
      "HarmonicPotential 4 0" 1 "1 / 2"
      "\<lparr>position = PyFloat (3 / 4), velocity = PyFloat (1 / 8), mass = PyFloat 2,
           acceleration = PyFloat (- (3 / 2))\<rparr>"
      "[0, 1 / 2, 1]" "[0, 1 / 2, 3 / 4]" "[1, 3 / 4, 1 / 8]"
      "\<lparr>kinetic = [1, 9 / 16, 1 / 64], potential = [0, 1 / 2, 9 / 8],
        total = [1, 17 / 16, 73 / 64]\<rparr>"]
    harmonic_run_example
  by simp

text \<open>
  Claim C2. In exact arithmetic, for every potential and every step \<open>i \<ge> 1\<close> of a run that
  returns, the samples satisfy the kick-drift-kick equations: with
  \<open>v_half = velocities[i-1] + (dt/2) * force(positions[i-1]) / m\<close>,
  \<open>positions[i] = positions[i-1] + dt * v_half\<close>,
  \<open>velocities[i] = v_half + (dt/2) * force(positions[i]) / m\<close> and
  \<open>times[i] = times[i-1] + dt\<close>, where the force at an entry of the returned array (a
  numpy scalar) is computed; a run with a step has a nonzero mass. The run returns for
  every positive \<open>dt\<close> and nonzero mass.
\<close>

theorem kick_drift_kick:
  "(simulate_particle exact p pot duration dt = Some (Inr (p', ts, xs, vs, en))
      \<and> 1 \<le> i \<and> i < length ts \<longrightarrow>
      length xs = length ts \<and> length vs = length ts \<and> val (mass p) \<noteq> 0
      \<and> (\<exists>f0 f1. force exact pot (Float64 (xs ! (i - 1))) = Inr f0
           \<and> force exact pot (Float64 (xs ! i)) = Inr f1
           \<and> (let v_half = vs ! (i - 1) + (dt / 2) * val f0 / val (mass p)
              in xs ! i = xs ! (i - 1) + dt * v_half
               \<and> vs ! i = v_half + (dt / 2) * val f1 / val (mass p)
               \<and> ts ! i = ts ! (i - 1) + dt)))
   \<and> (0 < dt \<and> val (mass p) \<noteq> 0 \<longrightarrow>
      (\<exists>r. simulate_particle exact p pot duration dt = Some (Inr r)))"
proof (intro conjI impI)
  assume a: "simulate_particle exact p pot duration dt = Some (Inr (p', ts, xs, vs, en))
      \<and> 1 \<le> i \<and> i < length ts"
  then obtain s0 s where s0: "initial_locals exact p pot = Inr s0"
    and s: "while_loop exact pot duration dt s0 = Some (Inr s)"
    and r: "ts = np_array (times_list s)" "xs = np_array (positions s)"
      "vs = np_array (velocities s)"
    using simulate_particle_returned [of exact p pot duration dt p' ts xs vs en] by blast
  from a obtain j where j: "i = Suc j"
    by (cases i) auto
  with a have lt: "Suc j < length (times_list s)"
    by (simp add: r np_array_def)
  note sh = while_loop_shape [OF s0 s]
  obtain g0 g1 where g: "force exact pot (positions s ! j) = Inr g0"
      "force exact pot (positions s ! Suc j) = Inr g1"
    and st: "val (positions s ! Suc j) =
        val (positions s ! j) + (val (velocities s ! j) + val g0 / val (mass p) * (dt / 2)) * dt"
      "val (velocities s ! Suc j) =
        (val (velocities s ! j) + val g0 / val (mass p) * (dt / 2))
          + val g1 / val (mass p) * (dt / 2)"
      "val (times_list s ! Suc j) = val (times_list s ! j) + dt"
      "val (mass p) \<noteq> 0"
    using while_loop_exact_steps [OF s0 s lt] by metis
  obtain f0 where f0: "force exact pot (Float64 (xs ! (i - 1))) = Inr f0"
    using force_exact_total by blast
  obtain f1 where f1: "force exact pot (Float64 (xs ! i)) = Inr f1"
    using force_exact_total by blast
  have nth: "xs ! j = val (positions s ! j)" "xs ! Suc j = val (positions s ! Suc j)"
    "vs ! j = val (velocities s ! j)" "vs ! Suc j = val (velocities s ! Suc j)"
    "ts ! j = val (times_list s ! j)" "ts ! Suc j = val (times_list s ! Suc j)"
    using lt sh(2,3) by (simp_all add: r np_array_def)
  have v0: "val f0 = val g0"
    using force_exact_val [OF f0 g(1)] nth by (simp add: j)
  have v1: "val f1 = val g1"
    using force_exact_val [OF f1 g(2)] nth by (simp add: j)
  show "length xs = length ts" "length vs = length ts" "val (mass p) \<noteq> 0"
    using sh(2,3) st(4) by (simp_all add: r np_array_def)
  have "let v_half = vs ! (i - 1) + (dt / 2) * val f0 / val (mass p)
         in xs ! i = xs ! (i - 1) + dt * v_half
          \<and> vs ! i = v_half + (dt / 2) * val f1 / val (mass p)
          \<and> ts ! i = ts ! (i - 1) + dt"
    using st(1,2,3) by (simp add: j nth v0 v1 Let_def algebra_simps)
  with f0 f1 show "\<exists>f0 f1. force exact pot (Float64 (xs ! (i - 1))) = Inr f0
           \<and> force exact pot (Float64 (xs ! i)) = Inr f1
           \<and> (let v_half = vs ! (i - 1) + (dt / 2) * val f0 / val (mass p)
              in xs ! i = xs ! (i - 1) + dt * v_half
               \<and> vs ! i = v_half + (dt / 2) * val f1 / val (mass p)
               \<and> ts ! i = ts ! (i - 1) + dt)"
    by blast
next
  assume "0 < dt \<and> val (mass p) \<noteq> 0"
  then show "\<exists>r. simulate_particle exact p pot duration dt = Some (Inr r)"
    using simulate_particle_exact_returns by blast
qed

theorem kick_drift_kick_witness:
  "simulate_particle exact
       \<lparr>position = PyFloat 0, velocity = PyFloat 1, mass = PyFloat 2, acceleration = PyFloat 0\<rparr>
       (HarmonicPotential 4 0) 1 (1 / 2) =
     Some (Inr (\<lparr>position = PyFloat (3 / 4), velocity = PyFloat (1 / 8), mass = PyFloat 2,
           acceleration = PyFloat (- (3 / 2))\<rparr>,
       [0, 1 / 2, 1], [0, 1 / 2, 3 / 4], [1, 3 / 4, 1 / 8],
       \<lparr>kinetic = [1, 9 / 16, 1 / 64], potential = [0, 1 / 2, 9 / 8],
        total = [1, 17 / 16, 73 / 64]\<rparr>))
   \<and> (1::nat) \<le> 2 \<and> 2 < length [0, 1 / 2, 1 :: real]
   \<and> force exact (HarmonicPotential 4 0) (Float64 ([0, 1 / 2, 3 / 4] ! (2 - 1))) =
       Inr (Float64 (- 2))
   \<and> force exact (HarmonicPotential 4 0) (Float64 ([0, 1 / 2, 3 / 4] ! 2)) =
       Inr (Float64 (- 3))
   \<and> [0, 1 / 2, 3 / 4] ! 2 =
       [0, 1 / 2, 3 / 4] ! (2 - 1) + (1 / 2) *
         ([1, 3 / 4, 1 / 8] ! (2 - 1) + ((1 / 2) / 2) * (- 2) / (2 :: real))
   \<and> [1, 3 / 4, 1 / 8] ! 2 =
       ([1, 3 / 4, 1 / 8] ! (2 - 1) + ((1 / 2) / 2) * (- 2) / 2)
         + ((1 / 2) / 2) * (- 3) / (2 :: real)
   \<and> [0, 1 / 2, 1] ! 2 = [0, 1 / 2, 1] ! (2 - 1) + (1 / 2 :: real)"
  using kick_drift_kick
    [of "\<lparr>position = PyFloat 0, velocity = PyFloat 1, mass = PyFloat 2,
           acceleration = PyFloat 0\<rparr>"
      "HarmonicPotential 4 0" 1 "1 / 2"
      "\<lparr>position = PyFloat (3 / 4), velocity = PyFloat (1 / 8), mass = PyFloat 2,
           acceleration = PyFloat (- (3 / 2))\<rparr>"
      "[0, 1 / 2, 1]" "[0, 1 / 2, 3 / 4]" "[1, 3 / 4, 1 / 8]"
      "\<lparr>kinetic = [1, 9 / 16, 1 / 64], potential = [0, 1 / 2, 9 / 8],
        total = [1, 17 / 16, 73 / 64]\<rparr>" 2]
    harmonic_run_example
  by (simp add: Let_def exact_simps)

text \<open>
  Claim C4. In exact arithmetic, for every initial position and velocity, positive mass,
  positive \<open>dt\<close> and any duration, the run with \<open>NoPotential\<close> returns, and at every
  index \<open>i\<close> of the returned arrays \<open>positions[i] = positions[0] + velocities[0] * times[i]\<close>
  and \<open>velocities[i] = velocities[0]\<close>.
\<close>

theorem free_particle_exact_solution:
  assumes "0 < dt" and "0 < val (mass p)"
  shows "\<exists>p' ts xs vs en.
      simulate_particle exact p NoPotential duration dt = Some (Inr (p', ts, xs, vs, en))
    \<and> length xs = length ts \<and> length vs = length ts
    \<and> xs ! 0 = val (position p) \<and> vs ! 0 = val (velocity p)
    \<and> (\<forall>i < length ts. xs ! i = xs ! 0 + vs ! 0 * ts ! i \<and> vs ! i = vs ! 0)"
proof -
  obtain s0 where s0: "initial_locals exact p NoPotential = Inr s0"
    by (rule initial_locals_exact)
  from assms obtain r where "simulate_particle exact p NoPotential duration dt = Some (Inr r)"
    using simulate_particle_exact_returns [of duration dt p NoPotential] by auto
  then obtain s where run: "while_loop exact NoPotential duration dt s0 = Some (Inr s)"
    and ret: "simulate_particle exact p NoPotential duration dt = Some (Inr (returned s))"
    using s0 by (auto simp: simulate_particle_def split: option.splits sum.splits)
  note sh = while_loop_shape [OF s0 run]
  have free: "val (positions s ! i) =
        val (positions s ! 0) + val (velocities s ! 0) * val (times_list s ! i)
      \<and> val (velocities s ! i) = val (velocities s ! 0)" if "i < length (times_list s)" for i
    using that
  proof (induction i)
    case 0
    show ?case using sh(7) by simp
  next
    case (Suc i)
    obtain f0 f1 where g: "force exact NoPotential (positions s ! i) = Inr f0"
        "force exact NoPotential (positions s ! Suc i) = Inr f1"
      and st: "val (positions s ! Suc i) =
          val (positions s ! i) + (val (velocities s ! i) + val f0 / val (mass p) * (dt / 2)) * dt"
        "val (velocities s ! Suc i) =
          (val (velocities s ! i) + val f0 / val (mass p) * (dt / 2))
            + val f1 / val (mass p) * (dt / 2)"
        "val (times_list s ! Suc i) = val (times_list s ! i) + dt"
      using while_loop_exact_steps [OF s0 run Suc.prems] by metis
    from g have z: "val f0 = 0" "val f1 = 0"
      by auto
    from Suc have ih: "val (positions s ! i) =
          val (positions s ! 0) + val (velocities s ! 0) * val (times_list s ! i)"
      "val (velocities s ! i) = val (velocities s ! 0)"
      by simp_all
    show ?case
      using st ih z by (simp add: algebra_simps)
  qed
  have len: "0 < length (times_list s)"
    using sh(1) by simp
  show ?thesis
    using ret sh(2,3,8,9) free len by (simp add: returned_def np_array_def)
qed

theorem free_particle_exact_solution_witness:
  "(0::real) < 1 / 2
   \<and> 0 < val (mass \<lparr>position = PyFloat 3, velocity = PyFloat (- 2), mass = PyFloat 5,
         acceleration = PyFloat 0\<rparr>)
   \<and> (\<exists>p' ts xs vs en.
      simulate_particle exact
        \<lparr>position = PyFloat 3, velocity = PyFloat (- 2), mass = PyFloat 5,
         acceleration = PyFloat 0\<rparr>
        NoPotential 1 (1 / 2) = Some (Inr (p', ts, xs, vs, en))
    \<and> length xs = length ts \<and> length vs = length ts
    \<and> xs ! 0 = val (position \<lparr>position = PyFloat 3, velocity = PyFloat (- 2),
         mass = PyFloat 5, acceleration = PyFloat 0\<rparr>)
    \<and> vs ! 0 = val (velocity \<lparr>position = PyFloat 3, velocity = PyFloat (- 2),
         mass = PyFloat 5, acceleration = PyFloat 0\<rparr>)
    \<and> (\<forall>i < length ts. xs ! i = xs ! 0 + vs ! 0 * ts ! i \<and> vs ! i = vs ! 0))"
  using free_particle_exact_solution
    [of "1 / 2" "\<lparr>position = PyFloat 3, velocity = PyFloat (- 2), mass = PyFloat 5,
         acceleration = PyFloat 0\<rparr>" 1]
  by simp

text \<open>
  Claim C5, as stated, fails on binary64 floats: the time is accumulated by repeated
  addition, and the sum of ten steps of \<open>dt = 0.1\<close> (the double
  \<open>3602879701896397 / 2^55\<close>) is \<open>1 - 2^-53\<close>, still below the duration \<open>1.0\<close>, so an
  eleventh iteration runs: the sequences have 12 entries, while
  \<open>ceil(duration / dt) + 1 = 11\<close>.
\<close>

theorem binary64_length_counterexample:
  "(\<forall>libm nplib.
     simulate_particle (binary64 libm nplib)
       \<lparr>position = PyFloat 0, velocity = PyFloat 1, mass = PyFloat 1, acceleration = PyFloat 0\<rparr>
       NoPotential 1 (3602879701896397 / 36028797018963968) =
     Some (Inr (\<lparr>position = PyFloat (4953959590107545 / 4503599627370496),
           velocity = PyFloat 1, mass = PyFloat 1, acceleration = PyFloat 0\<rparr>,
        [0, 3602879701896397 / 36028797018963968,
         3602879701896397 / 18014398509481984,
         1351079888211149 / 4503599627370496,
         3602879701896397 / 9007199254740992, 1 / 2,
         5404319552844595 / 9007199254740992,
         3152519739159347 / 4503599627370496,
         7205759403792793 / 9007199254740992,
         2026619832316723 / 2251799813685248,
         9007199254740991 / 9007199254740992,
         4953959590107545 / 4503599627370496],
        [0, 3602879701896397 / 36028797018963968,
         3602879701896397 / 18014398509481984,
         1351079888211149 / 4503599627370496,
         3602879701896397 / 9007199254740992, 1 / 2,
         5404319552844595 / 9007199254740992,
         3152519739159347 / 4503599627370496,
         7205759403792793 / 9007199254740992,
         2026619832316723 / 2251799813685248,
         9007199254740991 / 9007199254740992,
         4953959590107545 / 4503599627370496],
        [1, 1, 1, 1, 1, 1, 1, 1, 1, 1, 1, 1],
        \<lparr>kinetic =
           [1 / 2, 1 / 2, 1 / 2, 1 / 2, 1 / 2, 1 / 2, 1 / 2, 1 / 2, 1 / 2,
            1 / 2, 1 / 2, 1 / 2],
           potential = [0, 0, 0, 0, 0, 0, 0, 0, 0, 0, 0, 0],
           total =
             [1 / 2, 1 / 2, 1 / 2, 1 / 2, 1 / 2, 1 / 2, 1 / 2, 1 / 2, 1 / 2,
              1 / 2, 1 / 2, 1 / 2]\<rparr>)))
   \<and> nat \<lceil>(1::real) / (3602879701896397 / 36028797018963968)\<rceil> + 1 = 11"
  by (simp add: run_defs while_loop.simps binary64_defs)


text \<open>
  Claim C5, amended. In every arithmetic the six returned sequences (times, positions,
  velocities, kinetic, potential and total energy) have the same length. In exact
  arithmetic, for \<open>dt > 0\<close> and \<open>duration > 0\<close>, that length is
  \<open>ceil(duration / dt) + 1\<close>, and the run returns whenever the mass is not zero.
\<close>

theorem trajectory_length_exact:
  "(simulate_particle ar p pot duration dt = Some (Inr (p', ts, xs, vs, en)) \<longrightarrow>
      length xs = length ts \<and> length vs = length ts \<and> length (kinetic en) = length ts
      \<and> length (potential en) = length ts \<and> length (total en) = length ts)
   \<and> (simulate_particle exact p pot duration dt = Some (Inr (p', ts, xs, vs, en))
      \<and> 0 < dt \<and> 0 < duration \<longrightarrow>
      length ts = nat \<lceil>duration / dt\<rceil> + 1)
   \<and> (0 < dt \<and> val (mass p) \<noteq> 0 \<longrightarrow>
      (\<exists>r. simulate_particle exact p pot duration dt = Some (Inr r)))"
proof (intro conjI impI)
  assume "simulate_particle ar p pot duration dt = Some (Inr (p', ts, xs, vs, en))"
  then obtain s0 s where s0: "initial_locals ar p pot = Inr s0"
    and s: "while_loop ar pot duration dt s0 = Some (Inr s)"
    and r: "ts = np_array (times_list s)" "xs = np_array (positions s)"
      "vs = np_array (velocities s)"
      "kinetic en = np_array (ke s)" "potential en = np_array (pe s)"
      "total en = np_array (total_e s)"
    by (rule simulate_particle_returned)
  note sh = while_loop_shape [OF s0 s]
  show "length xs = length ts" "length vs = length ts" "length (kinetic en) = length ts"
    "length (potential en) = length ts" "length (total en) = length ts"
    using sh(2-6) by (simp_all add: r np_array_def)
next
  assume a: "simulate_particle exact p pot duration dt = Some (Inr (p', ts, xs, vs, en))
      \<and> 0 < dt \<and> 0 < duration"
  then obtain s0 s where s0: "initial_locals exact p pot = Inr s0"
    and s: "while_loop exact pot duration dt s0 = Some (Inr s)"
    and r: "ts = np_array (times_list s)"
    using simulate_particle_returned [of exact p pot duration dt p' ts xs vs en] by blast
  show "length ts = nat \<lceil>duration / dt\<rceil> + 1"
    using while_loop_exact_length [OF s0 s] a by (simp add: r np_array_def)
next
  assume "0 < dt \<and> val (mass p) \<noteq> 0"
  then show "\<exists>r. simulate_particle exact p pot duration dt = Some (Inr r)"
    using simulate_particle_exact_returns by blast
qed

theorem trajectory_length_exact_witness:
  "simulate_particle exact
       \<lparr>position = PyFloat 0, velocity = PyFloat 1, mass = PyFloat 2, acceleration = PyFloat 0\<rparr>
       (HarmonicPotential 4 0) 1 (1 / 2) =
     Some (Inr (\<lparr>position = PyFloat (3 / 4), velocity = PyFloat (1 / 8), mass = PyFloat 2,
           acceleration = PyFloat (- (3 / 2))\<rparr>,
       [0, 1 / 2, 1], [0, 1 / 2, 3 / 4], [1, 3 / 4, 1 / 8],
       \<lparr>kinetic = [1, 9 / 16, 1 / 64], potential = [0, 1 / 2, 9 / 8],
        total = [1, 17 / 16, 73 / 64]\<rparr>))
   \<and> (0::real) < 1 / 2 \<and> (0::real) < 1
   \<and> val (mass \<lparr>position = PyFloat 0, velocity = PyFloat 1, mass = PyFloat 2,
         acceleration = PyFloat 0\<rparr>) \<noteq> 0
   \<and> length [0, 1 / 2, 1 :: real] = nat \<lceil>(1::real) / (1 / 2)\<rceil> + 1
   \<and> length [0, 1 / 2, 3 / 4 :: real] = length [0, 1 / 2, 1 :: real]
   \<and> length [1, 3 / 4, 1 / 8 :: real] = length [0, 1 / 2, 1 :: real]"
  using trajectory_length_exact
    [of exact "\<lparr>position = PyFloat 0, velocity = PyFloat 1, mass = PyFloat 2,
         acceleration = PyFloat 0\<rparr>"
      "HarmonicPotential 4 0" 1 "1 / 2"
      "\<lparr>position = PyFloat (3 / 4), velocity = PyFloat (1 / 8), mass = PyFloat 2,
           acceleration = PyFloat (- (3 / 2))\<rparr>"
      "[0, 1 / 2, 1]" "[0, 1 / 2, 3 / 4]" "[1, 3 / 4, 1 / 8]"
      "\<lparr>kinetic = [1, 9 / 16, 1 / 64], potential = [0, 1 / 2, 9 / 8],
        total = [1, 17 / 16, 73 / 64]\<rparr>"]
    harmonic_run_example
  by simp

text \<open>
  Claim C8, as stated, has the loop end for every \<open>dt > 0\<close>. The time is accumulated in
  binary64: with \<open>dt = 2 ^ -53\<close> the time reaches 1 and stays there, since \<open>1 + 2 ^ -53\<close>
  rounds to 1, and with a duration of 2 the loop never ends.
\<close>

theorem binary64_no_termination_counterexample:
  "\<forall>libm nplib.
     simulate_particle (binary64 libm nplib)
       \<lparr>position = PyFloat 0, velocity = PyFloat 0, mass = PyFloat 1, acceleration = PyFloat 0\<rparr>
       NoPotential 2 (1 / 2 ^ 53) = None"
proof (intro allI)
  fix libm nplib
  let ?p = "\<lparr>position = PyFloat 0, velocity = PyFloat 0, mass = PyFloat 1,
      acceleration = PyFloat 0\<rparr>"
  let ?s0 = "\<lparr>particle = ?p, time = PyFloat 0, times_list = [PyFloat 0],
      positions = [PyFloat 0], velocities = [PyFloat 0],
      ke = [PyFloat 0], pe = [PyFloat 0], total_e = [PyFloat 0]\<rparr>"
  have i: "initial_locals (binary64 libm nplib) ?p NoPotential = Inr ?s0"
    by (simp add: initial_locals_def rest_kinetic_energy rest_total_energy)
  have "while_loop (binary64 libm nplib) NoPotential 2 (1 / 2 ^ 53) ?s0 = None"
    by (rule rest_while_loop_diverges [where j = 0]) simp_all
  then show "simulate_particle (binary64 libm nplib) ?p NoPotential 2 (1 / 2 ^ 53) = None"
    by (simp add: simulate_particle_def i)
qed

text \<open>
  Claim C8, amended. In exact arithmetic, for every \<open>dt > 0\<close> and every duration the loop
  ends, so \<open>simulate_particle\<close> yields a result; a loop that runs forever has \<open>dt \<le> 0\<close>
  (and a positive duration), and with \<open>dt \<le> 0\<close>, a positive duration and a nonzero mass
  it does run forever. On binary64, with \<open>dt \<le> 0\<close> and a positive duration no trajectory
  is ever returned.
\<close>

theorem loop_terminates_iff_dt_positive:
  "(0 < dt \<longrightarrow> (\<exists>r. simulate_particle exact p pot duration dt = Some r))
   \<and> (simulate_particle exact p pot duration dt = None \<longrightarrow> dt \<le> 0 \<and> 0 < duration)
   \<and> (dt \<le> 0 \<and> 0 < duration \<and> val (mass p) \<noteq> 0 \<longrightarrow>
        simulate_particle exact p pot duration dt = None)
   \<and> (dt \<le> 0 \<and> 0 < duration \<longrightarrow>
        (\<forall>libm nplib r.
           simulate_particle (binary64 libm nplib) p pot duration dt \<noteq> Some (Inr r)))"
proof -
  obtain f0 where f0: "force exact pot (position p) = Inr f0"
    using force_exact_total by blast
  have b: "dt \<le> 0 \<and> 0 < duration \<longrightarrow>
        (\<forall>libm nplib r.
           simulate_particle (binary64 libm nplib) p pot duration dt \<noteq> Some (Inr r))"
    using binary64_nonpositive_step_no_return by blast
  consider "duration \<le> 0" | "0 < duration" "val (mass p) = 0"
    | "0 < duration" "val (mass p) \<noteq> 0" "0 < dt" | "0 < duration" "val (mass p) \<noteq> 0" "dt \<le> 0"
    by linarith
  then have "(0 < dt \<longrightarrow> (\<exists>r. simulate_particle exact p pot duration dt = Some r))
   \<and> (simulate_particle exact p pot duration dt = None \<longrightarrow> dt \<le> 0 \<and> 0 < duration)
   \<and> (dt \<le> 0 \<and> 0 < duration \<and> val (mass p) \<noteq> 0 \<longrightarrow>
        simulate_particle exact p pot duration dt = None)"
  proof cases
    case 1
    then obtain r where "simulate_particle exact p pot duration dt = Some (Inr r)"
      using simulate_particle_exact_returns [of duration dt p pot] by blast
    with 1 show ?thesis by simp
  next
    case 2
    then show ?thesis
      using simulate_particle_exact_zero_mass [OF 2(2) 2(1) f0, of dt] by simp
  next
    case 3
    then obtain r where "simulate_particle exact p pot duration dt = Some (Inr r)"
      using simulate_particle_exact_returns [of duration dt p pot] by blast
    with 3 show ?thesis by simp
  next
    case 4
    then have "simulate_particle exact p pot duration dt = None"
      by (simp add: simulate_particle_exact_diverges)
    with 4 show ?thesis by simp
  qed
  with b show ?thesis by blast
qed

theorem loop_terminates_iff_dt_positive_witness:
  "(0::real) < 1 / 2
   \<and> (\<exists>r. simulate_particle exact
           \<lparr>position = PyFloat 0, velocity = PyFloat 1, mass = PyFloat 2,
            acceleration = PyFloat 0\<rparr>
           (HarmonicPotential 4 0) 1 (1 / 2) = Some r)
   \<and> (0::real) \<le> 0 \<and> (0::real) < 1
   \<and> val (mass \<lparr>position = PyFloat 0, velocity = PyFloat 1, mass = PyFloat 2,
            acceleration = PyFloat 0\<rparr>) \<noteq> 0
   \<and> simulate_particle exact
           \<lparr>position = PyFloat 0, velocity = PyFloat 1, mass = PyFloat 2,
            acceleration = PyFloat 0\<rparr>
           (HarmonicPotential 4 0) 1 0 = None
   \<and> (\<forall>libm nplib r. simulate_particle (binary64 libm nplib)
           \<lparr>position = PyFloat 0, velocity = PyFloat 1, mass = PyFloat 2,
            acceleration = PyFloat 0\<rparr>
           (HarmonicPotential 4 0) 1 0 \<noteq> Some (Inr r))"
  using loop_terminates_iff_dt_positive
      [of "1 / 2" "\<lparr>position = PyFloat 0, velocity = PyFloat 1, mass = PyFloat 2,
            acceleration = PyFloat 0\<rparr>"
        "HarmonicPotential 4 0" 1]
    loop_terminates_iff_dt_positive
      [of 0 "\<lparr>position = PyFloat 0, velocity = PyFloat 1, mass = PyFloat 2,
            acceleration = PyFloat 0\<rparr>"
        "HarmonicPotential 4 0" 1]
  by simp

section \<open>Validation of the configuration\<close>

text \<open>
  Claim C3, as stated, asks every invalid configuration to be rejected. A particle of
  mass \<open>-1\<close> in a box of width \<open>-2\<close> and stiffness \<open>-1000\<close> is constructed and simulated
  without any failure, and a complete trajectory is returned.
\<close>

theorem invalid_configuration_counterexample:
  "BoxPotential_init exact (- 2) 0 (- 1000) = Inr (BoxPotential (- 2) 0 (- 1000) (- 1))
   \<and> simulate_particle exact
       (Particle1D_init (1 / 2) 0 (Some (PyFloat 0)) (Some (PyFloat 1)) (PyFloat (- 1)))
       (BoxPotential (- 2) 0 (- 1000) (- 1)) 1 1 =
     Some (Inr (\<lparr>position = Float64 1, velocity = Float64 (- 999), mass = PyFloat (- 1),
           acceleration = Float64 (- 2000)\<rparr>,
        [0, 1], [0, 1], [1, - 999],
        \<lparr>kinetic = [- (1 / 2), - (998001 / 2)], potential = [- 500, - 2000],
           total = [- (1001 / 2), - (1002001 / 2)]\<rparr>))"
  by (simp add: run_defs while_loop.simps exact_simps np_sign_def Particle1D_init_def
      BoxPotential_init_def power2_eq_square)

text \<open>
  Claim C3, amended. Nothing validates the configuration: the constructors accept every
  mass and every field parameter, and \<open>simulate_particle\<close> checks neither \<open>dt\<close> nor the
  duration. In exact arithmetic, for every particle, potential, duration and \<open>dt\<close>: with
  a zero mass and a positive duration the first iteration divides the force by zero, which
  raises \<open>ZeroDivisionError\<close> when force and mass are Python floats and gives an infinite
  or NaN acceleration when one of them is a numpy scalar (the force of the box outside
  its walls is one); with a nonzero mass and \<open>dt \<le> 0 < duration\<close> the run never ends; in
  every other case, a negative mass and non-positive field parameters included, it
  returns a trajectory.
\<close>

theorem no_input_validation:
  "BoxPotential_init exact w c k = Inr (BoxPotential w c k (w / 2))
   \<and> mass (Particle1D_init rand_pos rand_vel pos vel m) = m
   \<and> (\<exists>f0. force exact pot (position (Particle1D_init rand_pos rand_vel pos vel m)) = Inr f0
        \<and> (val m = 0 \<and> 0 < duration \<longrightarrow>
             simulate_particle exact (Particle1D_init rand_pos rand_vel pos vel m) pot duration dt
               = Some (Inl (if numpy f0 \<or> numpy m then NonFinite
                            else Raised ZeroDivisionError))))
   \<and> (val m \<noteq> 0 \<and> dt \<le> 0 \<and> 0 < duration \<longrightarrow>
      simulate_particle exact (Particle1D_init rand_pos rand_vel pos vel m) pot duration dt
        = None)
   \<and> (duration \<le> 0 \<or> (val m \<noteq> 0 \<and> 0 < dt) \<longrightarrow>
      (\<exists>r. simulate_particle exact (Particle1D_init rand_pos rand_vel pos vel m) pot duration dt
        = Some (Inr r)))"
proof (intro conjI impI)
  let ?p = "Particle1D_init rand_pos rand_vel pos vel m"
  have m: "mass ?p = m"
    by (simp add: Particle1D_init_def)
  show "BoxPotential_init exact w c k = Inr (BoxPotential w c k (w / 2))"
    by (simp add: BoxPotential_init_def exact_simps)
  show "mass ?p = m"
    by (rule m)
  obtain f0 where f0: "force exact pot (position ?p) = Inr f0"
    using force_exact_total by blast
  have "val m = 0 \<and> 0 < duration \<longrightarrow>
      simulate_particle exact ?p pot duration dt
        = Some (Inl (if numpy f0 \<or> numpy m then NonFinite else Raised ZeroDivisionError))"
    using simulate_particle_exact_zero_mass [of ?p duration pot f0 dt] f0 m by simp
  with f0 show "\<exists>f0. force exact pot (position ?p) = Inr f0
        \<and> (val m = 0 \<and> 0 < duration \<longrightarrow>
             simulate_particle exact ?p pot duration dt
               = Some (Inl (if numpy f0 \<or> numpy m then NonFinite
                            else Raised ZeroDivisionError)))"
    by blast
  {
    assume "val m \<noteq> 0 \<and> dt \<le> 0 \<and> 0 < duration"
    then show "simulate_particle exact ?p pot duration dt = None"
      using simulate_particle_exact_diverges [of dt duration ?p pot] m by simp
  }
  {
    assume "duration \<le> 0 \<or> (val m \<noteq> 0 \<and> 0 < dt)"
    then show "\<exists>r. simulate_particle exact ?p pot duration dt = Some (Inr r)"
      using simulate_particle_exact_returns [of duration dt ?p pot] m by auto
  }
qed

theorem no_input_validation_witness:
  "(0::real) < 1
   \<and> BoxPotential_init exact (- 2) 0 (- 1000) = Inr (BoxPotential (- 2) 0 (- 1000) (- 1))
   \<and> force exact (BoxPotential (- 2) 0 (- 1000) (- 1)) (PyFloat (1 / 2)) =
       Inr (Float64 1500)
   \<and> simulate_particle exact (Particle1D_init (1 / 2) 0 None None (PyFloat 0))
        (BoxPotential (- 2) 0 (- 1000) (- 1)) 1 1 = Some (Inl NonFinite)
   \<and> force exact (HarmonicPotential 1 0) (PyFloat (1 / 2)) = Inr (PyFloat (- (1 / 2)))
   \<and> simulate_particle exact (Particle1D_init (1 / 2) 0 None None (PyFloat 0))
        (HarmonicPotential 1 0) 1 1 = Some (Inl (Raised ZeroDivisionError))
   \<and> (- 1::real) \<noteq> 0 \<and> (0::real) \<le> 0
   \<and> simulate_particle exact (Particle1D_init (1 / 2) 0 None None (PyFloat (- 1)))
        (BoxPotential (- 2) 0 (- 1000) (- 1)) 1 0 = None
   \<and> (\<exists>r. simulate_particle exact (Particle1D_init (1 / 2) 0 None None (PyFloat (- 1)))
        (BoxPotential (- 2) 0 (- 1000) (- 1)) 1 1 = Some (Inr r))"
  using no_input_validation
      [where m = "PyFloat 0" and duration = 1 and dt = 1 and rand_pos = "1 / 2"
        and rand_vel = 0 and pos = None and vel = None
        and pot = "BoxPotential (- 2) 0 (- 1000) (- 1)" and w = "- 2" and c = 0
        and k = "- 1000"]
    no_input_validation
      [where m = "PyFloat 0" and duration = 1 and dt = 1 and rand_pos = "1 / 2"
        and rand_vel = 0 and pos = None and vel = None
        and pot = "HarmonicPotential 1 0" and w = "- 2" and c = 0 and k = "- 1000"]
    no_input_validation
      [where m = "PyFloat (- 1)" and duration = 1 and dt = 0 and rand_pos = "1 / 2"
        and rand_vel = 0 and pos = None and vel = None
        and pot = "BoxPotential (- 2) 0 (- 1000) (- 1)" and w = "- 2" and c = 0
        and k = "- 1000"]
    no_input_validation
      [where m = "PyFloat (- 1)" and duration = 1 and dt = 1 and rand_pos = "1 / 2"
        and rand_vel = 0 and pos = None and vel = None
        and pot = "BoxPotential (- 2) 0 (- 1000) (- 1)" and w = "- 2" and c = 0
        and k = "- 1000"]
  by (simp add: Particle1D_init_def exact_simps np_sign_def del: split_paired_Ex)

end
